theory Spec2Isabelle
  imports Complex_Main "HOL-Library.Word"
begin

section \<open>Exceptions\<close>

text \<open>
  The Python exceptions that the modelled code can raise. A function that can raise
  returns \<open>error + 'a\<close>, with \<open>Inl\<close> for the exception.
\<close>

datatype error =
    IndexError
  | ZeroDivisionError
  | ValueError
  | RuntimeError
  | ConsumerError nat
  | VadError

section \<open>The sample buffer: \<open>collections.deque(maxlen=...)\<close>\<close>

text \<open>
  \<open>VoiceProcessor.__init__\<close> creates \<open>deque(maxlen=int(sample_rate * 30))\<close>.
  Appending to a bounded deque adds the item on the right and, when the length then
  exceeds \<open>maxlen\<close>, removes one item on the left. \<open>extend\<close> appends the items of
  its argument one by one, in order.
\<close>

definition deque_append :: "nat \<Rightarrow> 'a list \<Rightarrow> 'a \<Rightarrow> 'a list" where
  "deque_append maxlen d x =
     (let d' = d @ [x] in if maxlen < length d' then tl d' else d')"

fun deque_extend :: "nat \<Rightarrow> 'a list \<Rightarrow> 'a list \<Rightarrow> 'a list" where
  "deque_extend maxlen d [] = d"
| "deque_extend maxlen d (x # xs) = deque_extend maxlen (deque_append maxlen d x) xs"

text \<open>The most recent \<open>n\<close> items of a list, in order.\<close>

definition most_recent :: "nat \<Rightarrow> 'a list \<Rightarrow> 'a list" where
  "most_recent n xs = drop (length xs - n) xs"

section \<open>The capture pipeline: \<open>VoiceProcessor\<close>\<close>

text \<open>
  Samples and wall-clock times are floats in the source; they are modelled as reals.
  The configuration read in \<open>__init__\<close> is a record; the collaborators of the object
  (the WebRTC classifier, the transcription callback and the ambient asyncio event loop
  that \<open>asyncio.create_task\<close> relies on) are a second record.
\<close>

record vp_config =
  sample_rate :: nat
  silence_threshold :: real
  silence_duration :: real

record vp_env =
  vad_is_speech :: "16 word list \<Rightarrow> nat \<Rightarrow> error + bool"
  transcription_callback :: "(real list \<Rightarrow> nat \<Rightarrow> error option) option"
  running_loop :: bool

text \<open>
  The fields of the object that the pipeline mutates. \<open>pending\<close> holds the
  \<open>_process_audio\<close> tasks created and not yet run by the event loop, \<open>invoked\<close> records
  every call of the transcription callback with its arguments, and \<open>logged\<close> the
  exceptions reported through \<open>logger.error\<close>.
\<close>

record vp_state =
  is_recording :: bool
  audio_buffer :: "real list"
  recording_buffer :: "real list"
  last_voice_time :: real
  recording_start_time :: real
  pending :: "real list list"
  invoked :: "(real list \<times> nat) list"
  logged :: "error list"

definition vp_init :: vp_state where
  "vp_init = \<lparr>is_recording = False, audio_buffer = [], recording_buffer = [],
     last_voice_time = 0, recording_start_time = 0, pending = [], invoked = [],
     logged = []\<rparr>"

text \<open>The defaults of \<open>config/settings.py\<close>.\<close>

definition vp_defaults :: vp_config where
  "vp_defaults = \<lparr>sample_rate = 16000, silence_threshold = 0.01, silence_duration = 2.0\<rparr>"

definition buffer_maxlen :: "vp_config \<Rightarrow> nat" where
  "buffer_maxlen cfg = sample_rate cfg * 30"

subsection \<open>\<open>_audio_callback\<close>\<close>

text \<open>
  \<open>indata\<close> is a two-dimensional array: a block is its number of columns
  (\<open>indata.shape[1]\<close>) and its rows. \<open>indata[:, 0]\<close> raises \<open>IndexError\<close> when there is
  no column.
\<close>

type_synonym block = "nat \<times> real list list"

definition np_mean :: "real list \<Rightarrow> real" where
  "np_mean xs = sum_list xs / real (length xs)"

definition to_mono :: "block \<Rightarrow> error + real list" where
  "to_mono indata =
     (case indata of (channels, rows) \<Rightarrow>
        if 1 < channels then Inr (map np_mean rows)
        else if channels = 0 then Inl IndexError
        else Inr (map (\<lambda>r. r ! 0) rows))"

definition audio_callback :: "vp_config \<Rightarrow> block \<Rightarrow> vp_state \<Rightarrow> error + vp_state" where
  "audio_callback cfg indata st =
     (case to_mono indata of
        Inl e \<Rightarrow> Inl e
      | Inr audio_data \<Rightarrow>
          Inr (st\<lparr>audio_buffer := deque_extend (buffer_maxlen cfg) (audio_buffer st) audio_data\<rparr>))"

text \<open>A sequence of callbacks; an exception would end it.\<close>

fun audio_callbacks :: "vp_config \<Rightarrow> block list \<Rightarrow> vp_state \<Rightarrow> error + vp_state" where
  "audio_callbacks cfg [] st = Inr st"
| "audio_callbacks cfg (b # bs) st =
     (case audio_callback cfg b st of Inl e \<Rightarrow> Inl e | Inr st' \<Rightarrow> audio_callbacks cfg bs st')"

text \<open>The samples that a sequence of blocks delivers, in arrival order.\<close>

fun delivered :: "block list \<Rightarrow> real list" where
  "delivered [] = []"
| "delivered (b # bs) = (case to_mono b of Inl e \<Rightarrow> [] | Inr xs \<Rightarrow> xs) @ delivered bs"

text \<open>Blocks as the stream delivers them: at least one channel, and in every row one
  sample for each channel.\<close>

fun has_channels :: "block list \<Rightarrow> bool" where
  "has_channels [] = True"
| "has_channels (b # bs) =
     (0 < fst b \<and> list_all (\<lambda>r. length r = fst b) (snd b) \<and> has_channels bs)"

subsection \<open>\<open>_detect_voice_activity\<close>\<close>

text \<open>
  \<open>astype(np.int16)\<close> drops the fractional part (rounding toward zero) and keeps the low
  16 bits of the integer, read as two's complement: a value outside the 16-bit range
  wraps around.
\<close>

definition trunc_toward_zero :: "real \<Rightarrow> int" where
  "trunc_toward_zero x = (if 0 \<le> x then \<lfloor>x\<rfloor> else \<lceil>x\<rceil>)"

definition astype_int16 :: "real \<Rightarrow> 16 word" where
  "astype_int16 x = word_of_int (trunc_toward_zero x)"

text \<open>\<open>(frame * 32767).astype(np.int16)\<close>, as \<open>VoiceProcessor\<close> converts a frame.\<close>

definition pcm_frame_of :: "real list \<Rightarrow> 16 word list" where
  "pcm_frame_of frame = map (\<lambda>s. astype_int16 (s * 32767)) frame"

text \<open>
  \<open>np.sqrt(np.mean(frame ** 2))\<close>. The mean of an empty array is \<open>nan\<close> (the value
  \<open>None\<close> here), and every comparison with \<open>nan\<close> is false.
\<close>

definition rms_energy :: "real list \<Rightarrow> real option" where
  "rms_energy frame =
     (if frame = [] then None else Some (sqrt (np_mean (map (\<lambda>x. x ^ 2) frame))))"

definition energy_above :: "real \<Rightarrow> real list \<Rightarrow> bool" where
  "energy_above threshold frame =
     (case rms_energy frame of None \<Rightarrow> False | Some e \<Rightarrow> threshold < e)"

definition energy_below :: "real \<Rightarrow> real list \<Rightarrow> bool" where
  "energy_below threshold frame =
     (case rms_energy frame of None \<Rightarrow> False | Some e \<Rightarrow> e < threshold)"

text \<open>
  The body of the \<open>try\<close> raises when the classifier does, and the handler then decides
  on the energy alone. \<open>tobytes\<close> gives two bytes for each 16-bit sample.
\<close>

definition detect_voice_activity :: "vp_env \<Rightarrow> vp_config \<Rightarrow> real list \<Rightarrow> bool" where
  "detect_voice_activity env cfg frame =
     (let pcm_frame = pcm_frame_of frame in
      if 2 * length pcm_frame \<noteq> length frame * 2 then False
      else
        (case vad_is_speech env pcm_frame (sample_rate cfg) of
           Inl e \<Rightarrow> energy_above (silence_threshold cfg) frame
         | Inr is_speech \<Rightarrow> is_speech \<or> energy_above (silence_threshold cfg) frame))"

subsection \<open>\<open>VoxtralTrayGTK._detect_voice_activity\<close>\<close>

text \<open>
  The tray applications fix their settings in \<open>__init__\<close>; their configurations extend
  the one above. \<open>np.clip(x, -1.0, 1.0)\<close> is \<open>minimum(maximum(x, -1.0), 1.0)\<close>.
  Samples are reals here, so the guards of the source against \<open>nan\<close> and infinite
  samples are always passed and do not appear.
\<close>

record gtk_config = vp_config +
  min_recording_duration :: real

definition gtk_settings :: gtk_config where
  "gtk_settings = \<lparr>sample_rate = 16000, silence_threshold = 0.015, silence_duration = 1.5,
     min_recording_duration = 0.8\<rparr>"

definition np_clip :: "real \<Rightarrow> real \<Rightarrow> real \<Rightarrow> real" where
  "np_clip x lo hi = min (max x lo) hi"

definition pcm_data_of :: "real list \<Rightarrow> 16 word list" where
  "pcm_data_of padded_data = map (\<lambda>s. astype_int16 (np_clip s (-1) 1 * 32767)) padded_data"

text \<open>The frame is padded with zeros or cut to the number of samples expected.\<close>

definition padded_data_of :: "nat \<Rightarrow> real list \<Rightarrow> real list" where
  "padded_data_of expected_samples audio_data =
     (if length audio_data \<noteq> expected_samples then
        (if length audio_data < expected_samples
         then audio_data @ replicate (expected_samples - length audio_data) 0
         else take expected_samples audio_data)
      else audio_data)"

definition detect_voice_activity_gtk ::
  "gtk_config \<Rightarrow> real list \<Rightarrow> (16 word list \<Rightarrow> nat \<Rightarrow> error + bool) option \<Rightarrow> bool" where
  "detect_voice_activity_gtk cfg audio_data vad =
     (if length audio_data = 0 then False
      else
        let energy_threshold = energy_above (silence_threshold cfg) audio_data in
        (case vad of
           None \<Rightarrow> energy_threshold
         | Some v \<Rightarrow>
             let expected_samples = nat \<lfloor>real (sample_rate cfg) * 0.1\<rfloor>;
                 padded_data = padded_data_of expected_samples audio_data;
                 pcm_data = pcm_data_of padded_data;
                 expected_bytes = expected_samples * 2
             in if 2 * length pcm_data \<noteq> expected_bytes then energy_threshold
                else
                  (case v pcm_data (sample_rate cfg) of
                     Inl vad_error \<Rightarrow> energy_threshold
                   | Inr vad_result \<Rightarrow> vad_result \<and> energy_threshold)))"

subsection \<open>Starting and stopping a recording\<close>

text \<open>
  The loop reads the clock once for each frame; \<open>_start_recording\<close> reads it again for
  \<open>recording_start_time\<close>, which is taken to be the same instant. The duration that
  \<open>_stop_recording\<close> computes from the clock is only logged and is left out.
\<close>

definition start_recording :: "real \<Rightarrow> vp_state \<Rightarrow> vp_state" where
  "start_recording now st =
     (if is_recording st then st
      else st\<lparr>is_recording := True, recording_start_time := now, recording_buffer := []\<rparr>)"

text \<open>
  \<open>asyncio.create_task\<close> schedules the coroutine on the event loop running in the
  calling thread and raises \<open>RuntimeError\<close> when there is none.
\<close>

definition create_task :: "vp_env \<Rightarrow> real list \<Rightarrow> vp_state \<Rightarrow> error + vp_state" where
  "create_task env audio_data st =
     (if running_loop env then Inr (st\<lparr>pending := pending st @ [audio_data]\<rparr>)
      else Inl RuntimeError)"

text \<open>
  A function that mutates the object and may raise returns the exception, if any,
  together with the state it leaves behind.
\<close>

definition stop_recording :: "vp_env \<Rightarrow> vp_state \<Rightarrow> error option \<times> vp_state" where
  "stop_recording env st =
     (if \<not> is_recording st then (None, st)
      else
        let st1 = st\<lparr>is_recording := False\<rparr> in
        if 0 < length (recording_buffer st1) then
          (case create_task env (recording_buffer st1) st1 of
             Inl e \<Rightarrow> (Some e, st1)
           | Inr st2 \<Rightarrow> (None, st2\<lparr>recording_buffer := []\<rparr>))
        else (None, st1\<lparr>recording_buffer := []\<rparr>))"

definition force_stop_recording :: "vp_env \<Rightarrow> vp_state \<Rightarrow> error option \<times> vp_state" where
  "force_stop_recording env st =
     (if is_recording st then stop_recording env st else (None, st))"

subsection \<open>\<open>_processing_loop\<close>\<close>

text \<open>What one pass of the loop does with the frame it extracted, at clock reading
  \<open>current_time\<close>: the body of the \<open>try\<close> after the extraction.\<close>

definition segment_frame ::
  "vp_env \<Rightarrow> vp_config \<Rightarrow> real \<Rightarrow> real list \<Rightarrow> vp_state \<Rightarrow> error option \<times> vp_state" where
  "segment_frame env cfg current_time frame st =
     (if detect_voice_activity env cfg frame then
        let st1 = st\<lparr>last_voice_time := current_time\<rparr>;
            st2 = (if \<not> is_recording st1 then start_recording current_time st1 else st1)
        in (None, st2\<lparr>recording_buffer := recording_buffer st2 @ frame\<rparr>)
      else if is_recording st then
        (if silence_duration cfg \<le> current_time - last_voice_time st then stop_recording env st
         else (None, st\<lparr>recording_buffer := recording_buffer st @ frame\<rparr>))
      else (None, st))"

definition frame_size :: "vp_config \<Rightarrow> nat" where
  "frame_size cfg = sample_rate cfg * 30 div 1000"

text \<open>The handler of the loop logs the exception and the loop goes on.\<close>

definition log_error :: "error option \<times> vp_state \<Rightarrow> vp_state" where
  "log_error r = (case r of (None, st) \<Rightarrow> st | (Some e, st) \<Rightarrow> st\<lparr>logged := logged st @ [e]\<rparr>)"

definition processing_iteration :: "vp_env \<Rightarrow> vp_config \<Rightarrow> real \<Rightarrow> vp_state \<Rightarrow> vp_state" where
  "processing_iteration env cfg current_time st =
     (if length (audio_buffer st) < frame_size cfg then st
      else
        let frame = take (frame_size cfg) (audio_buffer st);
            st1 = st\<lparr>audio_buffer := drop (frame_size cfg) (audio_buffer st)\<rparr>
        in log_error (segment_frame env cfg current_time frame st1))"

subsection \<open>\<open>_process_audio\<close>\<close>

text \<open>
  The callback is a function of its arguments that returns normally (\<open>None\<close>) or raises.
  What it does to other objects is outside the model; a call of
  \<open>force_stop_recording\<close> that it makes is an event of its own below.
\<close>

definition process_audio_body ::
  "vp_env \<Rightarrow> vp_config \<Rightarrow> real list \<Rightarrow> vp_state \<Rightarrow> error option \<times> vp_state" where
  "process_audio_body env cfg audio_data st =
     (if sample_rate cfg = 0 then (Some ZeroDivisionError, st)
      else
        let duration = real (length audio_data) / real (sample_rate cfg) in
        if duration < 0.5 then (None, st)
        else
          (case transcription_callback env of
             None \<Rightarrow> (None, st)
           | Some callback \<Rightarrow>
               (callback audio_data (sample_rate cfg),
                st\<lparr>invoked := invoked st @ [(audio_data, sample_rate cfg)]\<rparr>)))"

definition process_audio ::
  "vp_env \<Rightarrow> vp_config \<Rightarrow> real list \<Rightarrow> vp_state \<Rightarrow> error option \<times> vp_state" where
  "process_audio env cfg audio_data st =
     (None, log_error (process_audio_body env cfg audio_data st))"

subsection \<open>Runs of the pipeline\<close>

text \<open>
  The threads of the pipeline interleave. A run is a sequence of events: a block
  delivered to the audio callback, a pass of the processing loop at a clock reading, a
  call of \<open>force_stop_recording\<close>, and the event loop running the oldest pending task.
  An exception that leaves an event goes to the caller of that event; the run collects
  these.
\<close>

datatype event = Audio block | Iteration real | Force_stop | Run_task

definition vp_step :: "vp_env \<Rightarrow> vp_config \<Rightarrow> event \<Rightarrow> vp_state \<Rightarrow> error option \<times> vp_state" where
  "vp_step env cfg ev st =
     (case ev of
        Audio indata \<Rightarrow>
          (case audio_callback cfg indata st of Inl e \<Rightarrow> (Some e, st) | Inr st' \<Rightarrow> (None, st'))
      | Iteration current_time \<Rightarrow> (None, processing_iteration env cfg current_time st)
      | Force_stop \<Rightarrow> force_stop_recording env st
      | Run_task \<Rightarrow>
          (case pending st of
             [] \<Rightarrow> (None, st)
           | audio_data # rest \<Rightarrow> process_audio env cfg audio_data (st\<lparr>pending := rest\<rparr>)))"

fun vp_run :: "vp_env \<Rightarrow> vp_config \<Rightarrow> event list \<Rightarrow> vp_state \<Rightarrow> error list \<times> vp_state" where
  "vp_run env cfg [] st = ([], st)"
| "vp_run env cfg (ev # evs) st =
     (case vp_step env cfg ev st of
        (r, st') \<Rightarrow>
          (case vp_run env cfg evs st' of
             (errs, st'') \<Rightarrow> ((case r of None \<Rightarrow> [] | Some e \<Rightarrow> [e]) @ errs, st'')))"

text \<open>The loop fed with frames directly, each with the clock reading of its pass.\<close>

fun feed_frames :: "vp_env \<Rightarrow> vp_config \<Rightarrow> (real \<times> real list) list \<Rightarrow> vp_state \<Rightarrow> vp_state" where
  "feed_frames env cfg [] st = st"
| "feed_frames env cfg ((current_time, frame) # fs) st =
     feed_frames env cfg fs (log_error (segment_frame env cfg current_time frame st))"

section \<open>Continuous dictation in the tray applications\<close>

text \<open>
  Both loops read a chunk from the stream in each pass. A chunk is the overflow flag of
  the read, the flattened samples and the clock reading of the pass (the source reads
  the clock up to twice in a pass; the two readings are taken to be the same instant).
  The local variables of a loop are a record; \<open>started\<close> lists the arguments of the
  processing threads that the loop has started.
\<close>

type_synonym chunk = "bool \<times> real list \<times> real"

record dictation_loop =
  is_speaking :: bool
  silence_start :: "real option"
  audio_buffer_l :: "real list"
  started :: "real list list"

record gtk_loop = dictation_loop +
  speech_frames :: nat
  silence_frames :: nat

definition gtk_loop_init :: gtk_loop where
  "gtk_loop_init = \<lparr>is_speaking = False, silence_start = None, audio_buffer_l = [],
     started = [], speech_frames = 0, silence_frames = 0\<rparr>"

subsection \<open>\<open>VoxtralTrayGTK._continuous_dictation_loop\<close>\<close>

text \<open>
  The loop sets \<open>vad_available = False\<close> and therefore passes \<open>None\<close> for the
  classifier.
\<close>

definition gtk_iteration :: "gtk_config \<Rightarrow> chunk \<Rightarrow> gtk_loop \<Rightarrow> gtk_loop" where
  "gtk_iteration cfg c st =
     (case c of (overflowed, audio_data, now) \<Rightarrow>
        if overflowed then st
        else if length audio_data = 0 then st
        else if detect_voice_activity_gtk cfg audio_data None then
          let st1 = st\<lparr>speech_frames := speech_frames st + 1, silence_frames := 0\<rparr>;
              st2 = (if \<not> is_speaking st1
                     then st1\<lparr>is_speaking := True, audio_buffer_l := [], silence_start := None\<rparr>
                     else st1)
          in st2\<lparr>audio_buffer_l := audio_buffer_l st2 @ audio_data\<rparr>
        else
          let st1 = st\<lparr>silence_frames := silence_frames st + 1\<rparr> in
          if is_speaking st1 then
            let t0 = (case silence_start st1 of None \<Rightarrow> now | Some t \<Rightarrow> t);
                st2 = st1\<lparr>silence_start := Some t0,
                         audio_buffer_l := audio_buffer_l st1 @ audio_data\<rparr>
            in if silence_duration cfg \<le> now - t0 then
                 (if 0 < length (audio_buffer_l st2)
                  then st2\<lparr>started := started st2 @ [audio_buffer_l st2]\<rparr>
                  else st2)
                 \<lparr>is_speaking := False, silence_start := None, audio_buffer_l := [],
                  speech_frames := 0, silence_frames := 0\<rparr>
               else st2
          else st1)"

fun gtk_run :: "gtk_config \<Rightarrow> chunk list \<Rightarrow> gtk_loop \<Rightarrow> gtk_loop" where
  "gtk_run cfg [] st = st"
| "gtk_run cfg (c # cs) st = gtk_run cfg cs (gtk_iteration cfg c st)"

subsection \<open>\<open>StableVoxtralTray._continuous_loop\<close>\<close>

record stable_config = vp_config +
  min_duration :: real
  max_duration :: real
  max_buffers :: int
  cleanup_interval :: real

definition stable_settings :: stable_config where
  "stable_settings = \<lparr>sample_rate = 16000, silence_threshold = 0.02, silence_duration = 2.0,
     min_duration = 1.0, max_duration = 15.0, max_buffers = 3, cleanup_interval = 30\<rparr>"

definition stable_loop_init :: dictation_loop where
  "stable_loop_init = \<lparr>is_speaking = False, silence_start = None, audio_buffer_l = [],
     started = []\<rparr>"

text \<open>
  \<open>audio_buffer_count\<close> is a field of the object that the processing threads change;
  a pass of the loop takes the value it reads there as an input.
\<close>

definition stable_iteration ::
  "stable_config \<Rightarrow> int \<Rightarrow> chunk \<Rightarrow> dictation_loop \<Rightarrow> dictation_loop" where
  "stable_iteration cfg audio_buffer_count c st =
     (case c of (overflowed, audio_data, now) \<Rightarrow>
        if overflowed then st
        else if length audio_data = 0 then st
        else if energy_above (silence_threshold cfg) audio_data then
          let st1 = (if \<not> is_speaking st
                     then st\<lparr>is_speaking := True, audio_buffer_l := [], silence_start := None\<rparr>
                     else st)
          in st1\<lparr>audio_buffer_l := audio_buffer_l st1 @ audio_data\<rparr>
        else if is_speaking st then
          let t0 = (case silence_start st of None \<Rightarrow> now | Some t \<Rightarrow> t);
              st2 = st\<lparr>silence_start := Some t0,
                      audio_buffer_l := audio_buffer_l st @ audio_data\<rparr>
          in if silence_duration cfg \<le> now - t0 then
               (if 0 < length (audio_buffer_l st2) \<and> audio_buffer_count < max_buffers cfg
                then st2\<lparr>started := started st2 @ [audio_buffer_l st2]\<rparr>
                else st2)
               \<lparr>is_speaking := False, silence_start := None, audio_buffer_l := []\<rparr>
             else st2
        else st)"

fun stable_run ::
  "stable_config \<Rightarrow> (int \<times> chunk) list \<Rightarrow> dictation_loop \<Rightarrow> dictation_loop" where
  "stable_run cfg [] st = st"
| "stable_run cfg ((n, c) # cs) st = stable_run cfg cs (stable_iteration cfg n c st)"

subsection \<open>\<open>StableVoxtralTray._process_audio_stable\<close>\<close>

text \<open>
  The fields of the object that the processing thread changes, with the list of the
  sample arrays handed to the transcription. \<open>transcribe\<close> stands for everything from
  writing the temporary file on: it returns normally or raises.
\<close>

record stable_obj =
  audio_buffer_count :: int
  last_cleanup :: real
  handed :: "real list list"
  printed :: "error list"

definition cleanup_memory :: "stable_obj \<Rightarrow> stable_obj" where
  "cleanup_memory ob = (if 0 < audio_buffer_count ob then ob\<lparr>audio_buffer_count := 0\<rparr> else ob)"

text \<open>A Python slice \<open>a[:k]\<close>: a negative \<open>k\<close> counts from the end.\<close>

definition slice_to :: "int \<Rightarrow> 'a list \<Rightarrow> 'a list" where
  "slice_to k xs = (if 0 \<le> k then take (nat k) xs else take (nat (int (length xs) + k)) xs)"

definition truncate_audio :: "stable_config \<Rightarrow> real list \<Rightarrow> real list" where
  "truncate_audio cfg audio_data =
     (let duration = real (length audio_data) / real (sample_rate cfg) in
      if max_duration cfg < duration
      then slice_to (trunc_toward_zero (max_duration cfg * real (sample_rate cfg))) audio_data
      else audio_data)"

definition normalize_audio :: "real list \<Rightarrow> error + real list" where
  "normalize_audio audio_data =
     (if audio_data = [] then Inl ValueError
      else
        let max_val = Max (set (map abs audio_data)) in
        if 0 < max_val then Inr (map (\<lambda>x. x / max_val * 0.9) audio_data) else Inr audio_data)"

definition process_audio_stable_body ::
  "stable_config \<Rightarrow> (real list \<Rightarrow> error option) \<Rightarrow> real \<Rightarrow> real list \<Rightarrow> stable_obj
     \<Rightarrow> error option \<times> stable_obj" where
  "process_audio_stable_body cfg transcribe now audio_data ob =
     (let ob1 = ob\<lparr>audio_buffer_count := audio_buffer_count ob + 1\<rparr>;
          ob2 = (if cleanup_interval cfg < now - last_cleanup ob1
                 then (cleanup_memory ob1)\<lparr>last_cleanup := now\<rparr> else ob1)
      in
        if length audio_data = 0 then (None, ob2)
        else if list_all (\<lambda>x. x = 0) audio_data then (None, ob2)
        else if sample_rate cfg = 0 then (Some ZeroDivisionError, ob2)
        else if real (length audio_data) / real (sample_rate cfg) < min_duration cfg
        then (None, ob2)
        else
          let audio_data1 = truncate_audio cfg audio_data in
          if energy_below 0.001 audio_data1 then (None, ob2)
          else
            (case normalize_audio audio_data1 of
               Inl e \<Rightarrow> (Some e, ob2)
             | Inr audio_data2 \<Rightarrow>
                 (transcribe audio_data2, ob2\<lparr>handed := handed ob2 @ [audio_data2]\<rparr>)))"

text \<open>The handler prints the exception; \<open>finally\<close> decrements the counter.\<close>

definition process_audio_stable ::
  "stable_config \<Rightarrow> (real list \<Rightarrow> error option) \<Rightarrow> real \<Rightarrow> real list \<Rightarrow> stable_obj
     \<Rightarrow> error option \<times> stable_obj" where
  "process_audio_stable cfg transcribe now audio_data ob =
     (case process_audio_stable_body cfg transcribe now audio_data ob of
        (r, ob') \<Rightarrow>
          (None,
           (case r of None \<Rightarrow> ob' | Some e \<Rightarrow> ob'\<lparr>printed := printed ob' @ [e]\<rparr>)
           \<lparr>audio_buffer_count := audio_buffer_count ob' - 1\<rparr>))"

definition stable_obj_init :: stable_obj where
  "stable_obj_init = \<lparr>audio_buffer_count = 0, last_cleanup = 0, handed = [], printed = []\<rparr>"

section \<open>Streams of constant frames\<close>

text \<open>
  Streams of frames (for the capture pipeline) and of chunks (for the tray loops)
  numbered \<open>i\<close> to \<open>j - 1\<close>, each of \<open>n\<close> samples of the constant value \<open>c\<close>, the one
  numbered \<open>k\<close> handled at the clock reading \<open>k * period\<close>.
\<close>

definition frames_at :: "real \<Rightarrow> nat \<Rightarrow> real \<Rightarrow> nat \<Rightarrow> nat \<Rightarrow> (real \<times> real list) list" where
  "frames_at period n c i j = map (\<lambda>k. (real k * period, replicate n c)) [i..<j]"

definition chunks_at :: "real \<Rightarrow> nat \<Rightarrow> real \<Rightarrow> nat \<Rightarrow> nat \<Rightarrow> chunk list" where
  "chunks_at period n c i j = map (\<lambda>k. (False, replicate n c, real k * period)) [i..<j]"

text \<open>
  An environment in which the classifier never reports speech, so that the energy test
  alone decides, the callback returns normally and an event loop is running.
\<close>

definition energy_only_env :: vp_env where
  "energy_only_env = \<lparr>vad_is_speech = (\<lambda>pcm rate. Inr False),
     transcription_callback = Some (\<lambda>audio_data rate. None), running_loop = True\<rparr>"

text \<open>The same environment with a callback that raises on an utterance of 48000
  samples and returns normally on any other, and the same environment with no event
  loop running in the calling thread, as in a thread started by
  \<open>threading.Thread\<close>.\<close>

definition raising_env :: vp_env where
  "raising_env = energy_only_env\<lparr>transcription_callback :=
     Some (\<lambda>audio_data rate. if length audio_data = 48000 then Some (ConsumerError 1) else None)\<rparr>"

definition no_loop_env :: vp_env where
  "no_loop_env = energy_only_env\<lparr>running_loop := False\<rparr>"

text \<open>
  An utterance for the capture pipeline at 16 kHz, in frames of 30 ms numbered from \<open>i\<close>
  and handled as they arrive: \<open>m\<close> frames of the constant value \<open>c\<close> followed by 83
  frames of silence (2.49 s). \<open>utterance_events\<close> is the same stream through the whole
  pipeline: one block delivers the samples to the audio callback, the loop makes one
  pass for each frame, and the event loop runs the oldest pending task.
\<close>

definition utterance_frames :: "nat \<Rightarrow> nat \<Rightarrow> real \<Rightarrow> (real \<times> real list) list" where
  "utterance_frames i m c =
     frames_at (3 / 100) 480 c i (i + m) @ frames_at (3 / 100) 480 0 (i + m) (i + m + 83)"

definition mono_block :: "real list \<Rightarrow> block" where
  "mono_block xs = (1, map (\<lambda>x. [x]) xs)"

definition utterance_events :: "nat \<Rightarrow> nat \<Rightarrow> real \<Rightarrow> event list" where
  "utterance_events i m c =
     Audio (mono_block (concat (map snd (utterance_frames i m c))))
       # map (\<lambda>x. Iteration (fst x)) (utterance_frames i m c) @ [Run_task]"

section \<open>Predicates used in the statements\<close>

text \<open>A chunk that the tray loops take as speech: read without overflow, not empty,
  with energy above the threshold.\<close>

definition voiced_chunk :: "real \<Rightarrow> chunk \<Rightarrow> bool" where
  "voiced_chunk threshold c =
     (case c of (overflowed, audio_data, now) \<Rightarrow>
        \<not> overflowed \<and> audio_data \<noteq> [] \<and> energy_above threshold audio_data)"

text \<open>A chunk that the tray loops take as silence.\<close>

definition silent_chunk :: "real \<Rightarrow> chunk \<Rightarrow> bool" where
  "silent_chunk threshold c =
     (case c of (overflowed, audio_data, now) \<Rightarrow>
        \<not> overflowed \<and> audio_data \<noteq> [] \<and> \<not> energy_above threshold audio_data)"

text \<open>The clock reading of a chunk, and its samples.\<close>

definition chunk_time :: "chunk \<Rightarrow> real" where
  "chunk_time c = snd (snd c)"


definition chunk_samples :: "chunk \<Rightarrow> real list" where
  "chunk_samples c = fst (snd c)"

text \<open>An utterance begins with a frame that the detector takes as speech: some prefix
  of its samples is such a frame.\<close>

definition begins_with_speech :: "(real list \<Rightarrow> bool) \<Rightarrow> real list \<Rightarrow> bool" where
  "begins_with_speech is_speech u = list_ex (\<lambda>n. is_speech (take n u)) [0..<Suc (length u)]"

text \<open>
  The invariants of the three loops: the utterance being accumulated, and every utterance
  handed on, begins with speech.
\<close>

definition vp_inv :: "(real list \<Rightarrow> bool) \<Rightarrow> vp_state \<Rightarrow> bool" where
  "vp_inv is_speech st =
     ((is_recording st \<longrightarrow> begins_with_speech is_speech (recording_buffer st))
      \<and> list_all (begins_with_speech is_speech) (pending st)
      \<and> list_all (begins_with_speech is_speech) (map fst (invoked st)))"

definition loop_inv :: "(real list \<Rightarrow> bool) \<Rightarrow> 'a dictation_loop_scheme \<Rightarrow> bool" where
  "loop_inv is_speech st =
     ((is_speaking st \<longrightarrow> begins_with_speech is_speech (audio_buffer_l st))
      \<and> list_all (begins_with_speech is_speech) (started st))"

text \<open>The duration of an utterance in seconds, as the source computes it.\<close>

definition duration_of :: "nat \<Rightarrow> real list \<Rightarrow> real" where
  "duration_of rate audio_data = real (length audio_data) / real rate"

text \<open>
  Speech with one short pause, in chunks of 0.1 s at 16 kHz: chunk 0 is voiced, chunk 1
  is silent, chunks 2 to \<open>n - 1\<close> are voiced and chunk \<open>n\<close> is silent.
  \<open>interrupted_speech_before n\<close> is the stream without its last chunk.
\<close>

definition interrupted_speech_before :: "nat \<Rightarrow> chunk list" where
  "interrupted_speech_before n =
     chunks_at (1 / 10) 1600 (1 / 2) 0 1 @ chunks_at (1 / 10) 1600 0 1 2
       @ chunks_at (1 / 10) 1600 (1 / 2) 2 n"

definition interrupted_speech :: "nat \<Rightarrow> chunk list" where
  "interrupted_speech n = interrupted_speech_before n @ chunks_at (1 / 10) 1600 0 n (Suc n)"

text \<open>
  Plain speech in chunks of 0.1 s at 16 kHz: \<open>m\<close> voiced chunks followed by 21 silent
  ones (2.1 s).
\<close>

definition plain_speech :: "nat \<Rightarrow> chunk list" where
  "plain_speech m =
     chunks_at (1 / 10) 1600 (1 / 2) 0 m @ chunks_at (1 / 10) 1600 0 m (m + 21)"

section \<open>A concrete scenario\<close>

text \<open>
  Mono input at 16 kHz with the default settings (silence timeout 2.0 s), in frames of
  30 ms handled as they arrive: 34 frames above the energy threshold (the first 1.0 s,
  with the frame that completes it) followed by 83 frames of silence (2.49 s).
\<close>

definition scenario_frames :: "(real \<times> real list) list" where
  "scenario_frames =
     frames_at (3 / 100) 480 (1 / 2) 0 34 @ frames_at (3 / 100) 480 0 34 117"

text \<open>
  The first 100 frames of the scenario, and the state of the object once the loop has
  handled them: recording, with all of them in the recording buffer.
\<close>

definition scenario_before :: "(real \<times> real list) list" where
  "scenario_before =
     frames_at (3 / 100) 480 (1 / 2) 0 34 @ frames_at (3 / 100) 480 0 34 100"

definition scenario_recorded :: vp_state where
  "scenario_recorded = vp_init\<lparr>is_recording := True,
     recording_buffer := replicate 16320 (1 / 2) @ replicate 31680 0,
     last_voice_time := 99 / 100\<rparr>"

section \<open>Properties of the sample buffer\<close>

lemma deque_append_length: "length d \<le> maxlen \<Longrightarrow> length (deque_append maxlen d x) \<le> maxlen"
  by (simp add: deque_append_def Let_def)

lemma deque_append_most_recent:
  "length d \<le> maxlen \<Longrightarrow> deque_append maxlen d x = most_recent maxlen (d @ [x])"
proof (cases "length d = maxlen")
  case True
  then show ?thesis
    by (cases d) (simp_all add: deque_append_def most_recent_def)
next
  case False
  assume "length d \<le> maxlen"
  with False have "length d < maxlen" by simp
  then show ?thesis
    by (simp add: deque_append_def most_recent_def)
qed

lemma most_recent_length: "length (most_recent n xs) = min n (length xs)"
  by (auto simp: most_recent_def min_def)

lemma most_recent_append:
  "most_recent n (most_recent n xs @ ys) = most_recent n (xs @ ys)"
proof -
  have "length xs + length ys - (length xs - n + n) + (length xs - n)
          = length xs + length ys - n"
    by arith
  then show ?thesis
    by (simp add: most_recent_def)
qed

lemma deque_extend_most_recent:
  "length d \<le> maxlen \<Longrightarrow> deque_extend maxlen d xs = most_recent maxlen (d @ xs)"
proof (induction xs arbitrary: d)
  case Nil
  then show ?case by (simp add: most_recent_def)
next
  case (Cons x xs)
  have "deque_extend maxlen d (x # xs) = deque_extend maxlen (deque_append maxlen d x) xs"
    by simp
  also have "\<dots> = most_recent maxlen (deque_append maxlen d x @ xs)"
    using Cons.IH [of "deque_append maxlen d x"] Cons.prems
    by (simp add: deque_append_length)
  also have "\<dots> = most_recent maxlen (most_recent maxlen (d @ [x]) @ xs)"
    using Cons.prems by (simp add: deque_append_most_recent)
  also have "\<dots> = most_recent maxlen (d @ x # xs)"
    using most_recent_append [of maxlen "d @ [x]" xs] by simp
  finally show ?case .
qed

lemma to_mono_has_channels:
  "0 < fst b \<Longrightarrow> to_mono b = Inr (case to_mono b of Inl e \<Rightarrow> [] | Inr xs \<Rightarrow> xs)"
  by (cases b) (simp add: to_mono_def)

lemma audio_callbacks_buffer:
  "has_channels bs \<Longrightarrow> length (audio_buffer st) \<le> buffer_maxlen cfg \<Longrightarrow>
   audio_callbacks cfg bs st =
     Inr (st\<lparr>audio_buffer := most_recent (buffer_maxlen cfg) (audio_buffer st @ delivered bs)\<rparr>)"
proof (induction bs arbitrary: st)
  case Nil
  then show ?case by (simp add: most_recent_def)
next
  case (Cons b bs)
  define xs where "xs = (case to_mono b of Inl e \<Rightarrow> [] | Inr xs \<Rightarrow> xs)"
  define st1 where
    "st1 = st\<lparr>audio_buffer := most_recent (buffer_maxlen cfg) (audio_buffer st @ xs)\<rparr>"
  from Cons.prems have mono: "to_mono b = Inr xs"
    using to_mono_has_channels [of b] by (simp add: xs_def)
  have step: "audio_callback cfg b st = Inr st1"
    using Cons.prems mono
    by (simp add: audio_callback_def st1_def deque_extend_most_recent)
  have len: "length (audio_buffer st1) \<le> buffer_maxlen cfg"
    by (simp add: st1_def most_recent_def)
  have "audio_callbacks cfg (b # bs) st = audio_callbacks cfg bs st1"
    using step by simp
  also have "\<dots> = Inr (st1\<lparr>audio_buffer :=
      most_recent (buffer_maxlen cfg) (audio_buffer st1 @ delivered bs)\<rparr>)"
    using Cons.IH [of st1] Cons.prems len by simp
  also have "\<dots> = Inr (st\<lparr>audio_buffer :=
      most_recent (buffer_maxlen cfg) (audio_buffer st @ delivered (b # bs))\<rparr>)"
    using most_recent_append [of "buffer_maxlen cfg" "audio_buffer st @ xs" "delivered bs"]
    by (simp add: st1_def xs_def)
  finally show ?case .
qed


lemma deque_extend_overflow_example: "deque_extend 3 [1, 2, 3 :: int] [4, 5] = [3, 4, 5]"
  by (simp add: deque_append_def)

text \<open>
  Claim C5. The audio callback never waits: on every sequence of blocks with at least
  one channel it returns, and it leaves in the buffer exactly the most recent
  \<open>sample_rate * 30\<close> samples of what the buffer held followed by what the blocks
  delivered, in arrival order; the oldest samples are the ones dropped.
\<close>

theorem audio_buffer_holds_most_recent:
  assumes "has_channels bs" and "length (audio_buffer st) \<le> sample_rate cfg * 30"
  shows "\<exists>st'. audio_callbacks cfg bs st = Inr st'
           \<and> audio_buffer st' =
               drop (length (audio_buffer st @ delivered bs) - sample_rate cfg * 30)
                 (audio_buffer st @ delivered bs)
           \<and> length (audio_buffer st') =
               min (sample_rate cfg * 30) (length (audio_buffer st @ delivered bs))
           \<and> st' = st\<lparr>audio_buffer := audio_buffer st'\<rparr>"
proof -
  let ?all = "audio_buffer st @ delivered bs"
  let ?st' = "st\<lparr>audio_buffer := most_recent (buffer_maxlen cfg) ?all\<rparr>"
  have run: "audio_callbacks cfg bs st = Inr ?st'"
    using assms by (simp add: audio_callbacks_buffer buffer_maxlen_def)
  have buf: "audio_buffer ?st' = drop (length ?all - sample_rate cfg * 30) ?all"
    by (simp add: most_recent_def buffer_maxlen_def)
  have len: "length (audio_buffer ?st') = min (sample_rate cfg * 30) (length ?all)"
    using most_recent_length [of "buffer_maxlen cfg" ?all] by (simp add: buffer_maxlen_def)
  have same: "?st' = st\<lparr>audio_buffer := audio_buffer ?st'\<rparr>"
    by simp
  from run buf len same show ?thesis by blast
qed

theorem audio_buffer_holds_most_recent_witness:
  "has_channels [(1, [[1/2], [1/4]]), (2, [[1/5, 2/5]])]
   \<and> length (audio_buffer vp_init) \<le> sample_rate \<lparr>sample_rate = 16000, silence_threshold = 1/100, silence_duration = 2\<rparr> * 30
   \<and> (\<exists>st'. audio_callbacks \<lparr>sample_rate = 16000, silence_threshold = 1/100, silence_duration = 2\<rparr>
               [(1, [[1/2], [1/4]]), (2, [[1/5, 2/5]])] vp_init = Inr st'
           \<and> audio_buffer st' = [1/2, 1/4, 3/10])"
proof -
  let ?cfg = "\<lparr>sample_rate = 16000, silence_threshold = 1/100, silence_duration = 2\<rparr>"
  let ?bs = "[(1::nat, [[1/2], [1/4]]), (2, [[1/5, 2/5 :: real]])]"
  have h1: "has_channels ?bs" by simp
  have h2: "length (audio_buffer vp_init) \<le> sample_rate ?cfg * 30"
    by (simp add: vp_init_def)
  have d: "delivered ?bs = [1/2, 1/4, 3/10]"
    by (simp add: to_mono_def np_mean_def)
  have eq: "drop (length (audio_buffer vp_init @ delivered ?bs) - sample_rate ?cfg * 30)
              (audio_buffer vp_init @ delivered ?bs) = [1/2, 1/4, 3/10]"
    unfolding d by (simp add: vp_init_def)
  from audio_buffer_holds_most_recent [OF h1 h2]
  obtain st' where run: "audio_callbacks ?cfg ?bs vp_init = Inr st'"
    and buf: "audio_buffer st' =
           drop (length (audio_buffer vp_init @ delivered ?bs) - sample_rate ?cfg * 30)
             (audio_buffer vp_init @ delivered ?bs)"
    by blast
  from buf have "audio_buffer st' = [1/2, 1/4, 3/10]"
    by (simp only: eq)
  with run h1 h2 show ?thesis by blast
qed

section \<open>Properties of the activity detectors\<close>

lemma rms_energy_replicate: "0 < n \<Longrightarrow> rms_energy (replicate n c) = Some \<bar>c\<bar>"
  by (simp add: rms_energy_def np_mean_def sum_list_replicate)

lemma energy_above_replicate: "0 < n \<Longrightarrow> energy_above t (replicate n c) = (t < \<bar>c\<bar>)"
  by (simp add: energy_above_def rms_energy_replicate)

lemma energy_below_replicate: "0 < n \<Longrightarrow> energy_below t (replicate n c) = (\<bar>c\<bar> < t)"
  by (simp add: energy_below_def rms_energy_replicate)

lemma sint16_in_range:
  assumes "- 32768 \<le> k" and "k < 32768"
  shows "sint (word_of_int k :: 16 word) = k"
proof -
  have "sint (word_of_int k :: 16 word) = signed_take_bit 15 k"
    by (simp add: sint_sbintrunc')
  also have "\<dots> = k"
    using assms by (intro signed_take_bit_int_eq_self) simp_all
  finally show ?thesis .
qed

lemma np_clip_bounds: "- 1 \<le> np_clip s (- 1) 1 \<and> np_clip s (- 1) 1 \<le> 1"
  by (simp add: np_clip_def)

lemma trunc_scaled_bounds:
  assumes "- 1 \<le> c" and "c \<le> (1::real)"
  shows "- 32767 \<le> trunc_toward_zero (c * 32767) \<and> trunc_toward_zero (c * 32767) \<le> 32767"
proof -
  have "- 32767 \<le> c * 32767" and "c * 32767 \<le> 32767"
    using assms by simp_all
  then show ?thesis
    unfolding trunc_toward_zero_def
    by (auto simp: le_floor_iff floor_le_iff le_ceiling_iff ceiling_le_iff)
qed

text \<open>The conversion of the tray application clamps first and cannot wrap around.\<close>

lemma pcm_data_of_no_wrap:
  "map sint (pcm_data_of xs) = map (\<lambda>s. trunc_toward_zero (np_clip s (- 1) 1 * 32767)) xs"
proof -
  have "sint (astype_int16 (np_clip s (- 1) 1 * 32767))
          = trunc_toward_zero (np_clip s (- 1) 1 * 32767)" for s
    using trunc_scaled_bounds [of "np_clip s (- 1) 1"] np_clip_bounds [of s]
    unfolding astype_int16_def by (intro sint16_in_range) simp_all
  then show ?thesis
    by (simp add: pcm_data_of_def)
qed

lemma padded_data_of_length: "length (padded_data_of n xs) = n"
  by (simp add: padded_data_of_def)

text \<open>
  Claim C6, at the input where the code departs from it. \<open>VoiceProcessor\<close> scales a frame
  and converts it without clamping: the over-driven sample \<open>1.5\<close> becomes \<open>49150\<close> before
  the conversion and \<open>-16386\<close> after it, a wrap-around to the opposite sign. The tray
  application clamps the same sample to \<open>1.0\<close> first and obtains \<open>32767\<close>.
\<close>

theorem pcm_frame_of_wraps_around:
  "map sint (pcm_frame_of [3 / 2]) = [- 16386]
   \<and> trunc_toward_zero (3 / 2 * 32767) = 49150
   \<and> map sint (pcm_data_of [3 / 2]) = [32767]"
  by (simp add: pcm_frame_of_def pcm_data_of_def astype_int16_def trunc_toward_zero_def
      np_clip_def)

text \<open>
  Claim C7. When the classifier answers, the capture pipeline reports speech if the
  classifier or the energy test does (logical OR); the detector of the continuous
  dictation, given a classifier that answers, reports speech only if both do (logical
  AND). The energy test is: the root mean square of the frame is greater than the
  configured threshold.
\<close>

theorem fusion_policy_or_and:
  "(vad_is_speech env (pcm_frame_of frame) (sample_rate cfg) = Inr s \<longrightarrow>
      detect_voice_activity env cfg frame
        = (s \<or> energy_above (silence_threshold cfg) frame))
   \<and> (audio_data \<noteq> [] \<and>
       v (pcm_data_of (padded_data_of (nat \<lfloor>real (sample_rate gcfg) * 0.1\<rfloor>) audio_data))
         (sample_rate gcfg) = Inr r \<longrightarrow>
      detect_voice_activity_gtk gcfg audio_data (Some v)
        = (r \<and> energy_above (silence_threshold gcfg) audio_data))
   \<and> (xs \<noteq> [] \<longrightarrow>
      energy_above t xs = (t < sqrt (sum_list (map (\<lambda>x. x ^ 2) xs) / real (length xs))))"
  by (simp add: detect_voice_activity_def detect_voice_activity_gtk_def pcm_frame_of_def
      pcm_data_of_def padded_data_of_length Let_def energy_above_def rms_energy_def np_mean_def)

theorem fusion_policy_or_and_witness:
  "detect_voice_activity
     \<lparr>vad_is_speech = (\<lambda>pcm rate. Inr False), transcription_callback = None,
      running_loop = True\<rparr> vp_defaults (replicate 480 (1 / 2))
   \<and> \<not> detect_voice_activity_gtk gtk_settings (replicate 1600 (1 / 1000))
         (Some (\<lambda>pcm rate. Inr True))
   \<and> energy_above (1 / 100) [3 / 10, - 2 / 5]"
proof -
  let ?env = "\<lparr>vad_is_speech = (\<lambda>pcm rate. Inr False), transcription_callback = None,
      running_loop = True\<rparr>"
  let ?v = "\<lambda>(pcm :: 16 word list) (rate :: nat). (Inr True :: error + bool)"
  note th = fusion_policy_or_and [where env = ?env and frame = "replicate 480 (1 / 2)"
      and cfg = vp_defaults and s = False and audio_data = "replicate 1600 (1 / 1000)"
      and v = ?v and gcfg = gtk_settings and r = True and xs = "[3 / 10, - 2 / 5]"
      and t = "1 / 100"]
  have a: "detect_voice_activity ?env vp_defaults (replicate 480 (1 / 2))"
    using th by (simp add: energy_above_replicate vp_defaults_def)
  have b: "\<not> detect_voice_activity_gtk gtk_settings (replicate 1600 (1 / 1000)) (Some ?v)"
    using th by (simp add: energy_above_replicate gtk_settings_def)
  have "(1 / 100) ^ 2 < (1 / 8 :: real)"
    by (simp add: power2_eq_square)
  then have "1 / 100 < sqrt (1 / 8 :: real)"
    by (intro real_less_rsqrt)
  then have c: "energy_above (1 / 100) [3 / 10, - 2 / 5]"
    using th by (simp add: power2_eq_square)
  from a b c show ?thesis by blast
qed

section \<open>Properties of the processing loop\<close>

lemma segment_voiced_idle:
  "detect_voice_activity env cfg f \<Longrightarrow> \<not> is_recording st \<Longrightarrow>
   log_error (segment_frame env cfg t f st)
     = st\<lparr>is_recording := True, recording_buffer := f, last_voice_time := t,
          recording_start_time := t\<rparr>"
  by (simp add: segment_frame_def start_recording_def log_error_def)

lemma segment_voiced_recording:
  "detect_voice_activity env cfg f \<Longrightarrow> is_recording st \<Longrightarrow>
   log_error (segment_frame env cfg t f st)
     = st\<lparr>recording_buffer := recording_buffer st @ f, last_voice_time := t\<rparr>"
  by (simp add: segment_frame_def start_recording_def log_error_def)

lemma segment_silent_idle:
  "\<not> detect_voice_activity env cfg f \<Longrightarrow> \<not> is_recording st \<Longrightarrow>
   log_error (segment_frame env cfg t f st) = st"
  by (simp add: segment_frame_def log_error_def)

lemma segment_silent_short:
  "\<not> detect_voice_activity env cfg f \<Longrightarrow> is_recording st \<Longrightarrow>
   t - last_voice_time st < silence_duration cfg \<Longrightarrow>
   log_error (segment_frame env cfg t f st)
     = st\<lparr>recording_buffer := recording_buffer st @ f\<rparr>"
  by (simp add: segment_frame_def log_error_def)

lemma segment_silent_timeout:
  "\<not> detect_voice_activity env cfg f \<Longrightarrow> is_recording st \<Longrightarrow>
   silence_duration cfg \<le> t - last_voice_time st \<Longrightarrow> running_loop env \<Longrightarrow>
   recording_buffer st \<noteq> [] \<Longrightarrow>
   log_error (segment_frame env cfg t f st)
     = st\<lparr>is_recording := False, recording_buffer := [],
          pending := pending st @ [recording_buffer st]\<rparr>"
  by (simp add: segment_frame_def log_error_def stop_recording_def create_task_def)

text \<open>
  A pass of the loop waits while the buffer holds less than a frame, and otherwise
  takes the oldest frame out of the buffer and segments it.
\<close>

lemma processing_iteration_frame:
  "processing_iteration env cfg t st =
     (if length (audio_buffer st) < frame_size cfg then st
      else log_error (segment_frame env cfg t (take (frame_size cfg) (audio_buffer st))
             (st\<lparr>audio_buffer := drop (frame_size cfg) (audio_buffer st)\<rparr>)))"
  by (simp add: processing_iteration_def Let_def)

text \<open>
  Without an event loop running in the calling thread the task is not created: the
  recording ends, the exception is raised and the samples stay in the buffer until the
  next recording starts.
\<close>

lemma stop_recording_without_loop:
  "\<not> running_loop env \<Longrightarrow> is_recording st \<Longrightarrow> recording_buffer st \<noteq> [] \<Longrightarrow>
   stop_recording env st = (Some RuntimeError, st\<lparr>is_recording := False\<rparr>)"
  by (simp add: stop_recording_def create_task_def)

lemma feed_voiced_recording:
  "is_recording st \<Longrightarrow> list_all (\<lambda>(t, f). detect_voice_activity env cfg f) fs \<Longrightarrow>
   feed_frames env cfg fs st
     = st\<lparr>recording_buffer := recording_buffer st @ concat (map snd fs),
          last_voice_time := last (last_voice_time st # map fst fs)\<rparr>"
proof (induction fs arbitrary: st)
  case Nil
  then show ?case by simp
next
  case (Cons x fs)
  obtain t f where x: "x = (t, f)" by (cases x)
  let ?st1 = "st\<lparr>recording_buffer := recording_buffer st @ f, last_voice_time := t\<rparr>"
  from Cons.prems x have step: "log_error (segment_frame env cfg t f st) = ?st1"
    by (simp add: segment_voiced_recording)
  have "feed_frames env cfg (x # fs) st = feed_frames env cfg fs ?st1"
    using step x by simp
  also have "\<dots> = ?st1\<lparr>recording_buffer := recording_buffer ?st1 @ concat (map snd fs),
          last_voice_time := last (last_voice_time ?st1 # map fst fs)\<rparr>"
    using Cons.prems by (intro Cons.IH) simp_all
  finally show ?case using x by simp
qed

lemma feed_silent_short:
  "is_recording st \<Longrightarrow>
   list_all (\<lambda>(t, f). \<not> detect_voice_activity env cfg f
                      \<and> t - last_voice_time st < silence_duration cfg) fs \<Longrightarrow>
   feed_frames env cfg fs st
     = st\<lparr>recording_buffer := recording_buffer st @ concat (map snd fs)\<rparr>"
proof (induction fs arbitrary: st)
  case Nil
  then show ?case by simp
next
  case (Cons x fs)
  obtain t f where x: "x = (t, f)" by (cases x)
  let ?st1 = "st\<lparr>recording_buffer := recording_buffer st @ f\<rparr>"
  from Cons.prems x have step: "log_error (segment_frame env cfg t f st) = ?st1"
    by (simp add: segment_silent_short)
  have "feed_frames env cfg (x # fs) st = feed_frames env cfg fs ?st1"
    using step x by simp
  also have "\<dots> = ?st1\<lparr>recording_buffer := recording_buffer ?st1 @ concat (map snd fs)\<rparr>"
    using Cons.prems by (intro Cons.IH) simp_all
  finally show ?case using x by simp
qed

lemma feed_silent_idle:
  "\<not> is_recording st \<Longrightarrow> list_all (\<lambda>(t, f). \<not> detect_voice_activity env cfg f) fs \<Longrightarrow>
   feed_frames env cfg fs st = st"
proof (induction fs arbitrary: st)
  case Nil
  then show ?case by simp
next
  case (Cons x fs)
  obtain t f where x: "x = (t, f)" by (cases x)
  from Cons.prems x have "log_error (segment_frame env cfg t f st) = st"
    by (simp add: segment_silent_idle)
  then show ?case using Cons x by simp
qed

lemma feed_frames_append:
  "feed_frames env cfg (fs @ gs) st = feed_frames env cfg gs (feed_frames env cfg fs st)"
  by (induction fs arbitrary: st) auto

section \<open>Properties of the tray loops\<close>

lemma gtk_detect_None:
  "detect_voice_activity_gtk cfg d None = (d \<noteq> [] \<and> energy_above (silence_threshold cfg) d)"
  by (simp add: detect_voice_activity_gtk_def)

lemma gtk_voiced_idle:
  "d \<noteq> [] \<Longrightarrow> energy_above (silence_threshold cfg) d \<Longrightarrow> \<not> is_speaking st \<Longrightarrow>
   gtk_iteration cfg (False, d, now) st
     = st\<lparr>is_speaking := True, silence_start := None, audio_buffer_l := d,
          speech_frames := speech_frames st + 1, silence_frames := 0\<rparr>"
  by (simp add: gtk_iteration_def gtk_detect_None)

lemma gtk_voiced_speaking:
  "d \<noteq> [] \<Longrightarrow> energy_above (silence_threshold cfg) d \<Longrightarrow> is_speaking st \<Longrightarrow>
   gtk_iteration cfg (False, d, now) st
     = st\<lparr>audio_buffer_l := audio_buffer_l st @ d,
          speech_frames := speech_frames st + 1, silence_frames := 0\<rparr>"
  by (simp add: gtk_iteration_def gtk_detect_None)

lemma gtk_silent_idle:
  "\<not> energy_above (silence_threshold cfg) d \<Longrightarrow> d \<noteq> [] \<Longrightarrow> \<not> is_speaking st \<Longrightarrow>
   gtk_iteration cfg (False, d, now) st = st\<lparr>silence_frames := silence_frames st + 1\<rparr>"
  by (simp add: gtk_iteration_def gtk_detect_None)

lemma gtk_silent_speaking:
  "\<not> energy_above (silence_threshold cfg) d \<Longrightarrow> d \<noteq> [] \<Longrightarrow> is_speaking st \<Longrightarrow>
   gtk_iteration cfg (False, d, now) st
     = (let t0 = (case silence_start st of None \<Rightarrow> now | Some t \<Rightarrow> t) in
        if silence_duration cfg \<le> now - t0
        then st\<lparr>is_speaking := False, silence_start := None, audio_buffer_l := [],
                started := started st @ [audio_buffer_l st @ d],
                speech_frames := 0, silence_frames := 0\<rparr>
        else st\<lparr>silence_start := Some t0, audio_buffer_l := audio_buffer_l st @ d,
                silence_frames := silence_frames st + 1\<rparr>)"
  by (simp add: gtk_iteration_def gtk_detect_None Let_def)

lemma stable_voiced_idle:
  "d \<noteq> [] \<Longrightarrow> energy_above (silence_threshold cfg) d \<Longrightarrow> \<not> is_speaking st \<Longrightarrow>
   stable_iteration cfg n (False, d, now) st
     = st\<lparr>is_speaking := True, silence_start := None, audio_buffer_l := d\<rparr>"
  by (simp add: stable_iteration_def)

lemma stable_voiced_speaking:
  "d \<noteq> [] \<Longrightarrow> energy_above (silence_threshold cfg) d \<Longrightarrow> is_speaking st \<Longrightarrow>
   stable_iteration cfg n (False, d, now) st
     = st\<lparr>audio_buffer_l := audio_buffer_l st @ d\<rparr>"
  by (simp add: stable_iteration_def)

lemma stable_silent_idle:
  "\<not> energy_above (silence_threshold cfg) d \<Longrightarrow> \<not> is_speaking st \<Longrightarrow>
   stable_iteration cfg n (False, d, now) st = st"
  by (simp add: stable_iteration_def)

lemma stable_silent_speaking:
  "\<not> energy_above (silence_threshold cfg) d \<Longrightarrow> d \<noteq> [] \<Longrightarrow> is_speaking st \<Longrightarrow>
   stable_iteration cfg n (False, d, now) st
     = (let t0 = (case silence_start st of None \<Rightarrow> now | Some t \<Rightarrow> t) in
        if silence_duration cfg \<le> now - t0
        then st\<lparr>is_speaking := False, silence_start := None, audio_buffer_l := [],
                started := started st @ (if n < max_buffers cfg then [audio_buffer_l st @ d] else [])\<rparr>
        else st\<lparr>silence_start := Some t0, audio_buffer_l := audio_buffer_l st @ d\<rparr>)"
  by (simp add: stable_iteration_def Let_def)

lemma chunk_samples_triple: "chunk_samples (overflowed, d, now) = d"
  by (simp add: chunk_samples_def)

lemma gtk_run_append: "gtk_run cfg (cs @ ds) st = gtk_run cfg ds (gtk_run cfg cs st)"
  by (induction cs arbitrary: st) auto

lemma stable_run_append: "stable_run cfg (cs @ ds) st = stable_run cfg ds (stable_run cfg cs st)"
  by (induction cs arbitrary: st) auto

lemma gtk_run_voiced_speaking:
  "is_speaking st \<Longrightarrow> list_all (voiced_chunk (silence_threshold cfg)) cs \<Longrightarrow>
   gtk_run cfg cs st
     = st\<lparr>audio_buffer_l := audio_buffer_l st @ concat (map chunk_samples cs),
          speech_frames := speech_frames st + length cs,
          silence_frames := (if cs = [] then silence_frames st else 0)\<rparr>"
proof (induction cs arbitrary: st)
  case Nil
  then show ?case by simp
next
  case (Cons c cs)
  obtain d now where c: "c = (False, d, now)" and d: "d \<noteq> []"
    and e: "energy_above (silence_threshold cfg) d"
    using Cons.prems(2) by (cases c) (auto simp: voiced_chunk_def)
  let ?st1 = "st\<lparr>audio_buffer_l := audio_buffer_l st @ d,
          speech_frames := speech_frames st + 1, silence_frames := 0\<rparr>"
  have step: "gtk_iteration cfg c st = ?st1"
    using c d e Cons.prems(1) by (simp add: gtk_voiced_speaking)
  have "gtk_run cfg (c # cs) st = gtk_run cfg cs ?st1"
    using step by simp
  also have "\<dots> = ?st1\<lparr>audio_buffer_l := audio_buffer_l ?st1 @ concat (map chunk_samples cs),
          speech_frames := speech_frames ?st1 + length cs,
          silence_frames := (if cs = [] then silence_frames ?st1 else 0)\<rparr>"
    using Cons.prems by (intro Cons.IH) simp_all
  finally show ?case using c by (simp add: chunk_samples_triple)
qed

lemma stable_run_voiced_speaking:
  "is_speaking st \<Longrightarrow> list_all (voiced_chunk (silence_threshold cfg)) (map snd cs) \<Longrightarrow>
   stable_run cfg cs st
     = st\<lparr>audio_buffer_l := audio_buffer_l st @ concat (map (\<lambda>x. chunk_samples (snd x)) cs)\<rparr>"
proof (induction cs arbitrary: st)
  case Nil
  then show ?case by simp
next
  case (Cons x cs)
  obtain n d now where x: "x = (n, False, d, now)" and d: "d \<noteq> []"
    and e: "energy_above (silence_threshold cfg) d"
    using Cons.prems(2) by (cases x) (auto simp: voiced_chunk_def)
  let ?st1 = "st\<lparr>audio_buffer_l := audio_buffer_l st @ d\<rparr>"
  have step: "stable_iteration cfg n (False, d, now) st = ?st1"
    using d e Cons.prems(1) by (simp add: stable_voiced_speaking)
  have "stable_run cfg (x # cs) st = stable_run cfg cs ?st1"
    using step x by simp
  also have "\<dots> = ?st1\<lparr>audio_buffer_l := audio_buffer_l ?st1 @ concat (map (\<lambda>x. chunk_samples (snd x)) cs)\<rparr>"
    using Cons.prems by (intro Cons.IH) simp_all
  finally show ?case using x by (simp add: chunk_samples_triple)
qed

section \<open>Streams of constant frames\<close>

lemma concat_replicate_replicate: "concat (replicate k (replicate n c)) = replicate (k * n) c"
  by (induction k) (simp_all add: replicate_add)

lemma frames_at_samples:
  "concat (map snd (frames_at p n c i j)) = replicate ((j - i) * n) c"
  by (simp add: frames_at_def comp_def map_replicate_const concat_replicate_replicate)

lemma frames_at_times: "map fst (frames_at p n c i j) = map (\<lambda>k. real k * p) [i..<j]"
  by (simp add: frames_at_def comp_def)

lemma frames_at_split:
  "i \<le> m \<Longrightarrow> m \<le> j \<Longrightarrow> frames_at p n c i j = frames_at p n c i m @ frames_at p n c m j"
  using upt_add_eq_append [of i m "j - m"] by (simp add: frames_at_def)

lemma frames_at_Cons:
  "i < j \<Longrightarrow> frames_at p n c i j = (real i * p, replicate n c) # frames_at p n c (Suc i) j"
  by (simp add: frames_at_def upt_conv_Cons)

lemma list_all_frames_at:
  "list_all P (frames_at p n c i j) = (\<forall>k\<in>{i..<j}. P (real k * p, replicate n c))"
  by (auto simp: frames_at_def list_all_iff)

lemma detect_energy_only:
  "0 < n \<Longrightarrow> detect_voice_activity energy_only_env cfg (replicate n c)
     = (silence_threshold cfg < \<bar>c\<bar>)"
  by (simp add: detect_voice_activity_def energy_only_env_def pcm_frame_of_def
      energy_above_replicate)

lemma feed_voiced_idle:
  assumes "\<not> is_recording st" and "fs \<noteq> []"
    and "list_all (\<lambda>(t, f). detect_voice_activity env cfg f) fs"
  shows "feed_frames env cfg fs st
     = st\<lparr>is_recording := True, recording_buffer := concat (map snd fs),
          last_voice_time := last (map fst fs), recording_start_time := fst (hd fs)\<rparr>"
proof -
  from assms(2) obtain t f gs where fs: "fs = (t, f) # gs"
    by (cases fs) auto
  let ?st1 = "st\<lparr>is_recording := True, recording_buffer := f, last_voice_time := t,
          recording_start_time := t\<rparr>"
  have "feed_frames env cfg fs st = feed_frames env cfg gs ?st1"
    using assms fs by (simp add: segment_voiced_idle)
  also have "\<dots> = ?st1\<lparr>recording_buffer := recording_buffer ?st1 @ concat (map snd gs),
          last_voice_time := last (last_voice_time ?st1 # map fst gs)\<rparr>"
    using assms(3) fs by (intro feed_voiced_recording) simp_all
  finally show ?thesis using fs by simp
qed

lemma vp_utterance:
  assumes idle: "\<not> is_recording st" and loop: "running_loop env"
    and fs: "fs \<noteq> []" "list_all (\<lambda>(t, f). detect_voice_activity env cfg f) fs"
    and gs: "list_all (\<lambda>(t, f). \<not> detect_voice_activity env cfg f
                \<and> t - last (map fst fs) < silence_duration cfg) gs"
    and f: "\<not> detect_voice_activity env cfg f"
      "silence_duration cfg \<le> t - last (map fst fs)"
    and ne: "concat (map snd fs) \<noteq> []"
  shows "feed_frames env cfg (fs @ gs @ [(t, f)]) st
     = st\<lparr>is_recording := False, recording_buffer := [],
          last_voice_time := last (map fst fs), recording_start_time := fst (hd fs),
          pending := pending st @ [concat (map snd fs) @ concat (map snd gs)]\<rparr>"
proof -
  let ?st1 = "st\<lparr>is_recording := True, recording_buffer := concat (map snd fs),
          last_voice_time := last (map fst fs), recording_start_time := fst (hd fs)\<rparr>"
  let ?st2 = "?st1\<lparr>recording_buffer := recording_buffer ?st1 @ concat (map snd gs)\<rparr>"
  have a: "feed_frames env cfg fs st = ?st1"
    using idle fs by (rule feed_voiced_idle)
  have b: "feed_frames env cfg gs ?st1 = ?st2"
    using gs by (intro feed_silent_short) simp_all
  have c: "log_error (segment_frame env cfg t f ?st2)
      = ?st2\<lparr>is_recording := False, recording_buffer := [],
          pending := pending ?st2 @ [recording_buffer ?st2]\<rparr>"
    using f loop ne by (intro segment_silent_timeout) simp_all
  have "feed_frames env cfg (fs @ gs @ [(t, f)]) st
      = log_error (segment_frame env cfg t f ?st2)"
    by (simp add: feed_frames_append a b)
  then show ?thesis
    unfolding c by simp
qed

lemma scenario_utterance:
  "feed_frames energy_only_env vp_defaults
     (frames_at (3 / 100) 480 (1 / 2) 0 34 @ frames_at (3 / 100) 480 0 34 117) vp_init
     = vp_init\<lparr>last_voice_time := 99 / 100,
          pending := [replicate 16320 (1 / 2) @ replicate 31680 0]\<rparr>"
proof -
  let ?fs = "frames_at (3 / 100) 480 (1 / 2) 0 34"
  let ?gs = "frames_at (3 / 100) 480 0 34 100"
  let ?hs = "frames_at (3 / 100) 480 0 101 117"
  let ?st = "vp_init\<lparr>last_voice_time := 99 / 100,
          pending := [replicate 16320 (1 / 2) @ replicate 31680 0]\<rparr>"
  have split: "frames_at (3 / 100) 480 0 34 117 = ?gs @ [(3, replicate 480 0)] @ ?hs"
    using frames_at_split [of 34 100 117 "3 / 100" 480 0]
      frames_at_Cons [of 100 117 "3 / 100" 480 0] by simp
  have ne: "?fs \<noteq> []" by (simp add: frames_at_def)
  have v: "list_all (\<lambda>(t, f). detect_voice_activity energy_only_env vp_defaults f) ?fs"
    by (simp add: list_all_frames_at detect_energy_only vp_defaults_def)
  have l: "last (map fst ?fs) = 99 / 100"
    by (simp add: frames_at_times last_map)
  have h: "fst (hd ?fs) = 0"
    by (simp add: frames_at_Cons)
  have s: "list_all (\<lambda>(t, f). \<not> detect_voice_activity energy_only_env vp_defaults f
                \<and> t - last (map fst ?fs) < silence_duration vp_defaults) ?gs"
    unfolding l by (auto simp: list_all_frames_at detect_energy_only vp_defaults_def)
  have utt: "feed_frames energy_only_env vp_defaults (?fs @ ?gs @ [(3, replicate 480 0)]) vp_init
      = ?st"
  proof -
    have idle: "\<not> is_recording vp_init" by (simp add: vp_init_def)
    have loop: "running_loop energy_only_env" by (simp add: energy_only_env_def)
    have f1: "\<not> detect_voice_activity energy_only_env vp_defaults (replicate 480 0)"
      by (simp add: detect_energy_only vp_defaults_def)
    have f2: "silence_duration vp_defaults \<le> 3 - last (map fst ?fs)"
      unfolding l by (simp add: vp_defaults_def)
    have ne2: "concat (map snd ?fs) \<noteq> []"
      unfolding frames_at_samples by simp
    show ?thesis
      unfolding vp_utterance [OF idle loop ne v s f1 f2 ne2] l h frames_at_samples
      by (simp add: vp_init_def)
  qed
  have rest: "feed_frames energy_only_env vp_defaults ?hs ?st = ?st"
    by (intro feed_silent_idle)
      (simp_all add: vp_init_def list_all_frames_at detect_energy_only vp_defaults_def)
  show ?thesis
    unfolding split using utt rest by (simp add: feed_frames_append)
qed

lemma chunk_time_triple: "chunk_time (overflowed, d, now) = now"
  by (simp add: chunk_time_def)

lemma gtk_run_silent_short:
  "is_speaking st \<Longrightarrow> silence_start st = Some t0 \<Longrightarrow>
   list_all (\<lambda>c. silent_chunk (silence_threshold cfg) c
               \<and> chunk_time c - t0 < silence_duration cfg) cs \<Longrightarrow>
   gtk_run cfg cs st
     = st\<lparr>audio_buffer_l := audio_buffer_l st @ concat (map chunk_samples cs),
          silence_frames := silence_frames st + length cs\<rparr>"
proof (induction cs arbitrary: st)
  case Nil
  then show ?case by simp
next
  case (Cons c cs)
  obtain d now where c: "c = (False, d, now)" and d: "d \<noteq> []"
    and e: "\<not> energy_above (silence_threshold cfg) d"
    and t: "now - t0 < silence_duration cfg"
    using Cons.prems(3) by (cases c) (auto simp: silent_chunk_def chunk_time_def)
  let ?st1 = "st\<lparr>audio_buffer_l := audio_buffer_l st @ d,
          silence_frames := silence_frames st + 1\<rparr>"
  have "gtk_iteration cfg c st
      = st\<lparr>silence_start := Some t0, audio_buffer_l := audio_buffer_l st @ d,
           silence_frames := silence_frames st + 1\<rparr>"
    using c d e t Cons.prems(1,2) by (simp add: gtk_silent_speaking)
  also have "\<dots> = ?st1"
    using Cons.prems(2) by simp
  finally have step: "gtk_iteration cfg c st = ?st1" .
  have "gtk_run cfg (c # cs) st = gtk_run cfg cs ?st1"
    using step by simp
  also have "\<dots> = ?st1\<lparr>audio_buffer_l := audio_buffer_l ?st1 @ concat (map chunk_samples cs),
          silence_frames := silence_frames ?st1 + length cs\<rparr>"
    using Cons.prems by (intro Cons.IH) simp_all
  finally show ?case using c by (simp add: chunk_samples_triple)
qed

lemma stable_run_silent_short:
  "is_speaking st \<Longrightarrow> silence_start st = Some t0 \<Longrightarrow>
   list_all (\<lambda>x. silent_chunk (silence_threshold cfg) (snd x)
               \<and> chunk_time (snd x) - t0 < silence_duration cfg) cs \<Longrightarrow>
   stable_run cfg cs st
     = st\<lparr>audio_buffer_l :=
            audio_buffer_l st @ concat (map (\<lambda>x. chunk_samples (snd x)) cs)\<rparr>"
proof (induction cs arbitrary: st)
  case Nil
  then show ?case by simp
next
  case (Cons x cs)
  obtain n d now where x: "x = (n, False, d, now)" and d: "d \<noteq> []"
    and e: "\<not> energy_above (silence_threshold cfg) d"
    and t: "now - t0 < silence_duration cfg"
    using Cons.prems(3) by (cases x) (auto simp: silent_chunk_def chunk_time_def)
  let ?st1 = "st\<lparr>audio_buffer_l := audio_buffer_l st @ d\<rparr>"
  have "stable_iteration cfg n (False, d, now) st
      = st\<lparr>silence_start := Some t0, audio_buffer_l := audio_buffer_l st @ d\<rparr>"
    using d e t Cons.prems(1,2) by (simp add: stable_silent_speaking)
  also have "\<dots> = ?st1"
    using Cons.prems(2) by simp
  finally have step: "stable_iteration cfg n (False, d, now) st = ?st1" .
  have "stable_run cfg (x # cs) st = stable_run cfg cs ?st1"
    using step x by simp
  also have "\<dots> = ?st1\<lparr>audio_buffer_l :=
      audio_buffer_l ?st1 @ concat (map (\<lambda>x. chunk_samples (snd x)) cs)\<rparr>"
    using Cons.prems by (intro Cons.IH) simp_all
  finally show ?case using x by (simp add: chunk_samples_triple)
qed

lemma chunks_at_samples:
  "concat (map chunk_samples (chunks_at p n c i j)) = replicate ((j - i) * n) c"
  by (simp add: chunks_at_def comp_def chunk_samples_triple map_replicate_const
      concat_replicate_replicate)

lemma chunks_at_split:
  "i \<le> m \<Longrightarrow> m \<le> j \<Longrightarrow> chunks_at p n c i j = chunks_at p n c i m @ chunks_at p n c m j"
  using upt_add_eq_append [of i m "j - m"] by (simp add: chunks_at_def)

lemma chunks_at_Cons:
  "i < j \<Longrightarrow> chunks_at p n c i j = (False, replicate n c, real i * p) # chunks_at p n c (Suc i) j"
  by (simp add: chunks_at_def upt_conv_Cons)

lemma list_all_chunks_at:
  "list_all P (chunks_at p n c i j) = (\<forall>k\<in>{i..<j}. P (False, replicate n c, real k * p))"
  by (auto simp: chunks_at_def list_all_iff)

lemma voiced_chunk_replicate:
  "voiced_chunk t (False, replicate n c, now) = (0 < n \<and> t < \<bar>c\<bar>)"
  by (cases "n = 0") (simp_all add: voiced_chunk_def energy_above_replicate)

lemma silent_chunk_replicate:
  "silent_chunk t (False, replicate n c, now) = (0 < n \<and> \<not> t < \<bar>c\<bar>)"
  by (cases "n = 0") (simp_all add: silent_chunk_def energy_above_replicate)

lemma chunks_at_single:
  "chunks_at p n c i (Suc i) = [(False, replicate n c, real i * p)]"
  by (simp add: chunks_at_def)

lemma gtk_interrupted_before:
  assumes "2 \<le> n"
  shows "gtk_run gtk_settings (interrupted_speech_before n) gtk_loop_init
     = gtk_loop_init\<lparr>is_speaking := True, silence_start := Some (1 / 10),
         audio_buffer_l := replicate 1600 (1 / 2) @ replicate 1600 0
            @ replicate ((n - 2) * 1600) (1 / 2),
         speech_frames := n - 1, silence_frames := (if n = 2 then 1 else 0)\<rparr>"
proof -
  let ?s1 = "gtk_loop_init\<lparr>is_speaking := True, silence_start := None,
      audio_buffer_l := replicate 1600 (1 / 2), speech_frames := 1, silence_frames := 0\<rparr>"
  let ?s2 = "gtk_loop_init\<lparr>is_speaking := True, silence_start := Some (1 / 10),
      audio_buffer_l := replicate 1600 (1 / 2) @ replicate 1600 0,
      speech_frames := 1, silence_frames := 1\<rparr>"
  let ?cs = "chunks_at (1 / 10) 1600 (1 / 2) 2 n"
  have a: "gtk_run gtk_settings (chunks_at (1 / 10) 1600 (1 / 2) 0 1) gtk_loop_init = ?s1"
    using chunks_at_single [of "1 / 10" 1600 "1 / 2" 0]
    by (simp add: gtk_voiced_idle energy_above_replicate gtk_settings_def gtk_loop_init_def)
  have b: "gtk_run gtk_settings (chunks_at (1 / 10) 1600 0 1 2) ?s1 = ?s2"
    using chunks_at_single [of "1 / 10" 1600 0 1]
    by (simp add: gtk_silent_speaking energy_above_replicate gtk_settings_def
        gtk_loop_init_def numeral_2_eq_2)
  have v: "list_all (voiced_chunk (silence_threshold gtk_settings)) ?cs"
    by (simp add: list_all_chunks_at voiced_chunk_replicate gtk_settings_def)
  have c: "gtk_run gtk_settings ?cs ?s2
      = ?s2\<lparr>audio_buffer_l := audio_buffer_l ?s2 @ concat (map chunk_samples ?cs),
          speech_frames := speech_frames ?s2 + length ?cs,
          silence_frames := (if ?cs = [] then silence_frames ?s2 else 0)\<rparr>"
    using v by (intro gtk_run_voiced_speaking) simp_all
  have len: "length ?cs = n - 2" and emp: "(?cs = []) = (n = 2)"
    using assms by (auto simp: chunks_at_def)
  show ?thesis
    unfolding interrupted_speech_before_def gtk_run_append a b c chunks_at_samples len emp
    using assms by (auto simp add: gtk_loop_init_def)
qed

lemma gtk_interrupted:
  assumes "2 \<le> n" and "16 \<le> n"
  shows "gtk_run gtk_settings (interrupted_speech n) gtk_loop_init
     = gtk_loop_init\<lparr>started := [replicate 1600 (1 / 2) @ replicate 1600 0
            @ replicate ((n - 2) * 1600) (1 / 2) @ replicate 1600 0]\<rparr>"
proof -
  have "3 / 2 \<le> real n / 10 - 1 / 10"
    using assms(2) by simp
  then show ?thesis
    unfolding interrupted_speech_def gtk_run_append gtk_interrupted_before [OF assms(1)]
      chunks_at_single
    by (simp add: gtk_silent_speaking energy_above_replicate gtk_settings_def
        gtk_loop_init_def)
qed

lemma stable_interrupted_before:
  assumes "2 \<le> n"
  shows "stable_run stable_settings (map (Pair k) (interrupted_speech_before n)) stable_loop_init
     = stable_loop_init\<lparr>is_speaking := True, silence_start := Some (1 / 10),
         audio_buffer_l := replicate 1600 (1 / 2) @ replicate 1600 0
            @ replicate ((n - 2) * 1600) (1 / 2)\<rparr>"
proof -
  let ?s1 = "stable_loop_init\<lparr>is_speaking := True, silence_start := None,
      audio_buffer_l := replicate 1600 (1 / 2)\<rparr>"
  let ?s2 = "stable_loop_init\<lparr>is_speaking := True, silence_start := Some (1 / 10),
      audio_buffer_l := replicate 1600 (1 / 2) @ replicate 1600 0\<rparr>"
  let ?cs = "map (Pair k) (chunks_at (1 / 10) 1600 (1 / 2) 2 n)"
  have a: "stable_run stable_settings (map (Pair k) (chunks_at (1 / 10) 1600 (1 / 2) 0 1))
      stable_loop_init = ?s1"
    using chunks_at_single [of "1 / 10" 1600 "1 / 2" 0]
    by (simp add: stable_voiced_idle energy_above_replicate stable_settings_def
        stable_loop_init_def)
  have b: "stable_run stable_settings (map (Pair k) (chunks_at (1 / 10) 1600 0 1 2)) ?s1 = ?s2"
    using chunks_at_single [of "1 / 10" 1600 0 1]
    by (simp add: stable_silent_speaking energy_above_replicate stable_settings_def
        stable_loop_init_def numeral_2_eq_2)
  have v: "list_all (voiced_chunk (silence_threshold stable_settings)) (map snd ?cs)"
    by (simp add: comp_def list_all_chunks_at voiced_chunk_replicate stable_settings_def)
  have c: "stable_run stable_settings ?cs ?s2
      = ?s2\<lparr>audio_buffer_l :=
          audio_buffer_l ?s2 @ concat (map (\<lambda>x. chunk_samples (snd x)) ?cs)\<rparr>"
    using v by (intro stable_run_voiced_speaking) simp_all
  have d: "concat (map (\<lambda>x. chunk_samples (snd x)) ?cs) = replicate ((n - 2) * 1600) (1 / 2)"
    using chunks_at_samples [of "1 / 10" 1600 "1 / 2" 2 n] by (simp add: comp_def)
  show ?thesis
    unfolding interrupted_speech_before_def map_append stable_run_append a b c d
    by (simp add: stable_loop_init_def)
qed

lemma stable_interrupted:
  assumes "2 \<le> n" and "21 \<le> n"
  shows "stable_run stable_settings (map (Pair k) (interrupted_speech n)) stable_loop_init
     = stable_loop_init\<lparr>started := (if k < 3 then [replicate 1600 (1 / 2) @ replicate 1600 0
            @ replicate ((n - 2) * 1600) (1 / 2) @ replicate 1600 0] else [])\<rparr>"
proof -
  have "2 \<le> real n / 10 - 1 / 10"
    using assms(2) by simp
  then show ?thesis
    unfolding interrupted_speech_def map_append stable_run_append
      stable_interrupted_before [OF assms(1)] chunks_at_single
    by (simp add: stable_silent_speaking energy_above_replicate stable_settings_def
        stable_loop_init_def)
qed

lemma feed_voiced_any:
  assumes "fs \<noteq> []" and "list_all (\<lambda>(t, f). detect_voice_activity env cfg f) fs"
  shows "feed_frames env cfg fs st
     = st\<lparr>is_recording := True,
          recording_buffer :=
            (if is_recording st then recording_buffer st else []) @ concat (map snd fs),
          last_voice_time := last (map fst fs),
          recording_start_time :=
            (if is_recording st then recording_start_time st else fst (hd fs))\<rparr>"
proof (cases "is_recording st")
  case True
  then show ?thesis
    using assms by (simp add: feed_voiced_recording)
next
  case False
  then show ?thesis
    using assms by (simp add: feed_voiced_idle)
qed

lemma gtk_run_voiced_any:
  assumes "cs \<noteq> []" and "list_all (voiced_chunk (silence_threshold cfg)) cs"
  shows "gtk_run cfg cs st
     = st\<lparr>is_speaking := True,
          silence_start := (if is_speaking st then silence_start st else None),
          audio_buffer_l :=
            (if is_speaking st then audio_buffer_l st else []) @ concat (map chunk_samples cs),
          speech_frames := speech_frames st + length cs, silence_frames := 0\<rparr>"
proof (cases "is_speaking st")
  case True
  then show ?thesis
    using assms by (simp add: gtk_run_voiced_speaking)
next
  case False
  from assms obtain d now cs' where cs: "cs = (False, d, now) # cs'" and d: "d \<noteq> []"
    and e: "energy_above (silence_threshold cfg) d"
    by (cases cs) (auto simp: voiced_chunk_def)
  let ?st1 = "st\<lparr>is_speaking := True, silence_start := None, audio_buffer_l := d,
          speech_frames := speech_frames st + 1, silence_frames := 0\<rparr>"
  have "gtk_run cfg cs st = gtk_run cfg cs' ?st1"
    using cs d e False by (simp add: gtk_voiced_idle)
  also have "\<dots> = ?st1\<lparr>audio_buffer_l := audio_buffer_l ?st1 @ concat (map chunk_samples cs'),
          speech_frames := speech_frames ?st1 + length cs',
          silence_frames := (if cs' = [] then silence_frames ?st1 else 0)\<rparr>"
    using assms(2) cs by (intro gtk_run_voiced_speaking) simp_all
  finally show ?thesis
    using cs False by (simp add: chunk_samples_triple)
qed

lemma stable_run_voiced_any:
  assumes "cs \<noteq> []" and "list_all (voiced_chunk (silence_threshold cfg)) (map snd cs)"
  shows "stable_run cfg cs st
     = st\<lparr>is_speaking := True,
          silence_start := (if is_speaking st then silence_start st else None),
          audio_buffer_l :=
            (if is_speaking st then audio_buffer_l st else [])
              @ concat (map (\<lambda>x. chunk_samples (snd x)) cs)\<rparr>"
proof (cases "is_speaking st")
  case True
  then show ?thesis
    using assms by (simp add: stable_run_voiced_speaking)
next
  case False
  from assms obtain n d now cs' where cs: "cs = (n, False, d, now) # cs'" and d: "d \<noteq> []"
    and e: "energy_above (silence_threshold cfg) d"
    by (cases cs) (auto simp: voiced_chunk_def)
  let ?st1 = "st\<lparr>is_speaking := True, silence_start := None, audio_buffer_l := d\<rparr>"
  have "stable_run cfg cs st = stable_run cfg cs' ?st1"
    using cs d e False by (simp add: stable_voiced_idle)
  also have "\<dots> = ?st1\<lparr>audio_buffer_l :=
      audio_buffer_l ?st1 @ concat (map (\<lambda>x. chunk_samples (snd x)) cs')\<rparr>"
    using assms(2) cs by (intro stable_run_voiced_speaking) simp_all
  finally show ?thesis
    using cs False by (simp add: chunk_samples_triple)
qed

lemma truncate_audio_take:
  assumes "0 < sample_rate cfg" and "0 \<le> max_duration cfg"
    and "max_duration cfg < duration_of (sample_rate cfg) a"
  shows "truncate_audio cfg a = take (nat \<lfloor>max_duration cfg * real (sample_rate cfg)\<rfloor>) a"
  using assms
  by (simp add: truncate_audio_def duration_of_def slice_to_def trunc_toward_zero_def)

lemma frames_at_nonempty: "i < j \<Longrightarrow> frames_at p n c i j \<noteq> []"
  by (simp add: frames_at_def)

lemma frames_at_last_time:
  "i < j \<Longrightarrow> last (map fst (frames_at p n c i j)) = real (j - 1) * p"
  by (simp add: frames_at_def comp_def last_map)

lemma frames_at_hd_time: "i < j \<Longrightarrow> fst (hd (frames_at p n c i j)) = real i * p"
  by (simp add: frames_at_Cons)

lemma chunks_at_nonempty: "i < j \<Longrightarrow> chunks_at p n c i j \<noteq> []"
  by (simp add: chunks_at_def)

lemma long_voiced_capture:
  "feed_frames energy_only_env vp_defaults (frames_at (3 / 100) 480 (1 / 2) 0 1001) vp_init
     = vp_init\<lparr>is_recording := True, recording_buffer := replicate 480480 (1 / 2),
          last_voice_time := 30\<rparr>"
proof -
  let ?fs = "frames_at (3 / 100) 480 (1 / 2) 0 1001"
  have ne: "?fs \<noteq> []" by (simp add: frames_at_nonempty)
  have v: "list_all (\<lambda>(t, f). detect_voice_activity energy_only_env vp_defaults f) ?fs"
    by (simp add: list_all_frames_at detect_energy_only vp_defaults_def)
  have l: "last (map fst ?fs) = 30"
    by (simp add: frames_at_last_time)
  have h: "fst (hd ?fs) = 0"
    by (simp add: frames_at_hd_time)
  show ?thesis
    unfolding feed_voiced_any [OF ne v] frames_at_samples l h
    by (simp add: vp_init_def)
qed

lemma stable_long_voiced:
  "stable_run stable_settings (map (Pair k) (chunks_at (1 / 10) 1600 (1 / 2) 0 200))
     stable_loop_init
     = stable_loop_init\<lparr>is_speaking := True, audio_buffer_l := replicate 320000 (1 / 2)\<rparr>"
proof -
  let ?cs = "map (Pair k) (chunks_at (1 / 10) 1600 (1 / 2) 0 200)"
  have ne: "?cs \<noteq> []" by (simp add: chunks_at_nonempty)
  have v: "list_all (voiced_chunk (silence_threshold stable_settings)) (map snd ?cs)"
    by (simp add: comp_def list_all_chunks_at voiced_chunk_replicate stable_settings_def)
  have d: "concat (map (\<lambda>x. chunk_samples (snd x)) ?cs) = replicate 320000 (1 / 2)"
    using chunks_at_samples [of "1 / 10" 1600 "1 / 2" 0 200] by (simp add: comp_def)
  show ?thesis
    unfolding stable_run_voiced_any [OF ne v] d
    by (simp add: stable_loop_init_def)
qed

lemma list_all_zero_replicate: "list_all (\<lambda>x. x = 0) (replicate n c) = (n = 0 \<or> c = (0::real))"
  by (auto simp: list_all_iff)

lemma normalize_replicate:
  "0 < n \<Longrightarrow> c \<noteq> 0 \<Longrightarrow> normalize_audio (replicate n c) = Inr (replicate n (c / \<bar>c\<bar> * (9 / 10)))"
  by (simp add: normalize_audio_def)

lemma truncate_long:
  "truncate_audio stable_settings (replicate 320000 (1 / 2) @ replicate 33600 0)
     = replicate 240000 (1 / 2)"
  by (simp add: truncate_audio_def stable_settings_def slice_to_def trunc_toward_zero_def)

lemma process_long:
  "process_audio_stable stable_settings (\<lambda>a. None) 0
      (replicate 320000 (1 / 2) @ replicate 33600 0) stable_obj_init
     = (None, stable_obj_init\<lparr>handed := [replicate 240000 (9 / 10)]\<rparr>)"
  unfolding process_audio_stable_def process_audio_stable_body_def truncate_long
  by (simp add: stable_obj_init_def stable_settings_def list_all_zero_replicate
      energy_below_replicate normalize_replicate)

lemma stable_plain_speech:
  assumes "0 < m"
  shows "stable_run stable_settings (map (Pair k) (plain_speech m)) stable_loop_init
     = stable_loop_init\<lparr>started :=
         (if k < 3 then [replicate (m * 1600) (1 / 2) @ replicate 33600 0] else [])\<rparr>"
proof -
  let ?s1 = "stable_loop_init\<lparr>is_speaking := True,
      audio_buffer_l := replicate (m * 1600) (1 / 2)\<rparr>"
  let ?s2 = "?s1\<lparr>silence_start := Some (real m / 10),
      audio_buffer_l := replicate (m * 1600) (1 / 2) @ replicate 1600 0\<rparr>"
  let ?s3 = "?s2\<lparr>audio_buffer_l := audio_buffer_l ?s2 @ replicate 30400 0\<rparr>"
  let ?vs = "map (Pair k) (chunks_at (1 / 10) 1600 (1 / 2) 0 m)"
  let ?gs = "map (Pair k) (chunks_at (1 / 10) 1600 0 (Suc m) (m + 20))"
  have split: "chunks_at (1 / 10) 1600 0 m (m + 21)
      = chunks_at (1 / 10) 1600 0 m (Suc m) @ chunks_at (1 / 10) 1600 0 (Suc m) (m + 20)
        @ chunks_at (1 / 10) 1600 0 (m + 20) (m + 21)"
    using chunks_at_split [of m "Suc m" "m + 21" "1 / 10" 1600 0]
      chunks_at_split [of "Suc m" "m + 20" "m + 21" "1 / 10" 1600 0] by simp
  have single: "chunks_at (1 / 10) 1600 0 (m + 20) (m + 21)
      = [(False, replicate 1600 0, real (m + 20) * (1 / 10))]"
    using chunks_at_single [of "1 / 10" 1600 0 "m + 20"] by (simp add: add.commute)
  have ne: "?vs \<noteq> []"
    using assms by (simp add: chunks_at_nonempty)
  have v: "list_all (voiced_chunk (silence_threshold stable_settings)) (map snd ?vs)"
    by (simp add: comp_def list_all_chunks_at voiced_chunk_replicate stable_settings_def)
  have dv: "concat (map (\<lambda>x. chunk_samples (snd x)) ?vs) = replicate (m * 1600) (1 / 2)"
    using chunks_at_samples [of "1 / 10" 1600 "1 / 2" 0 m] by (simp add: comp_def)
  have a0: "stable_run stable_settings ?vs stable_loop_init = ?s1"
    unfolding stable_run_voiced_any [OF ne v] dv
    by (simp add: stable_loop_init_def)
  have a: "stable_run stable_settings (map (Pair k) (chunks_at (1 / 10) 1600 0 m (Suc m))) ?s1
      = ?s2"
    unfolding chunks_at_single
    by (simp add: stable_silent_speaking energy_above_replicate stable_settings_def
        stable_loop_init_def)
  have s: "list_all (\<lambda>x. silent_chunk (silence_threshold stable_settings) (snd x)
               \<and> chunk_time (snd x) - real m / 10 < silence_duration stable_settings) ?gs"
    by (auto simp: list_all_iff chunks_at_def silent_chunk_replicate chunk_time_triple
        stable_settings_def simp del: upt_rec_numeral)
  have d: "concat (map (\<lambda>x. chunk_samples (snd x)) ?gs) = replicate 30400 0"
    using chunks_at_samples [of "1 / 10" 1600 0 "Suc m" "m + 20"] by (simp add: comp_def)
  have b: "stable_run stable_settings ?gs ?s2 = ?s3"
    using stable_run_silent_short [of ?s2 "real m / 10" stable_settings ?gs, OF _ _ s]
    unfolding d by simp
  have c: "stable_run stable_settings
      (map (Pair k) (chunks_at (1 / 10) 1600 0 (m + 20) (m + 21))) ?s3
      = stable_loop_init\<lparr>started :=
         (if k < 3 then [replicate (m * 1600) (1 / 2) @ replicate 33600 0] else [])\<rparr>"
    unfolding single
    by (simp add: stable_silent_speaking energy_above_replicate stable_settings_def
        stable_loop_init_def replicate_add [symmetric] add_divide_distrib)
  show ?thesis
    unfolding plain_speech_def split map_append stable_run_append a0 a b c ..
qed

lemma interrupted_speech_times:
  "2 < n \<Longrightarrow> chunk_time (last (interrupted_speech_before n)) = real (n - 1) / 10"
  "chunk_time (last (interrupted_speech n)) = real n / 10"
  by (simp_all add: interrupted_speech_before_def interrupted_speech_def chunks_at_def
      chunk_time_triple last_map del: upt_Suc)

section \<open>Dispatch and force-stop\<close>

lemma process_audio_invoked:
  assumes "transcription_callback env = Some cb" and "0 < sample_rate cfg"
  shows "process_audio env cfg a st
     = (None,
        if duration_of (sample_rate cfg) a < 1 / 2 then st
        else (case cb a (sample_rate cfg) of
                None \<Rightarrow> st\<lparr>invoked := invoked st @ [(a, sample_rate cfg)]\<rparr>
              | Some e \<Rightarrow> st\<lparr>invoked := invoked st @ [(a, sample_rate cfg)],
                             logged := logged st @ [e]\<rparr>))"
  using assms
  by (simp add: process_audio_def process_audio_body_def log_error_def duration_of_def
      split: option.splits)

lemma force_stop_recording_eq:
  "running_loop env \<Longrightarrow>
   force_stop_recording env st
     = (None,
        if is_recording st
        then st\<lparr>is_recording := False, recording_buffer := [],
                pending := pending st @ (if recording_buffer st = [] then []
                                         else [recording_buffer st])\<rparr>
        else st)"
  by (simp add: force_stop_recording_def stop_recording_def create_task_def)

lemma detect_callback_irrelevant:
  "detect_voice_activity (env\<lparr>transcription_callback := c\<rparr>) cfg f
     = detect_voice_activity env cfg f"
  by (simp add: detect_voice_activity_def)

lemma same_but_log:
  "s1\<lparr>logged := []\<rparr> = s2\<lparr>logged := []\<rparr> \<Longrightarrow> s1 = s2\<lparr>logged := logged s1\<rparr>"
  by (cases s1, cases s2) simp

lemma vp_step_callback_irrelevant:
  assumes "transcription_callback env = Some cb"
  shows "fst (vp_step env cfg ev (st\<lparr>logged := l\<rparr>))
           = fst (vp_step (env\<lparr>transcription_callback := Some (\<lambda>a r. None)\<rparr>) cfg ev st)
       \<and> (snd (vp_step env cfg ev (st\<lparr>logged := l\<rparr>)))\<lparr>logged := []\<rparr>
           = (snd (vp_step (env\<lparr>transcription_callback := Some (\<lambda>a r. None)\<rparr>) cfg ev st))
               \<lparr>logged := []\<rparr>"
proof (cases ev)
  case (Audio b)
  then show ?thesis
    by (simp add: vp_step_def audio_callback_def split: sum.splits)
next
  case (Iteration t)
  then show ?thesis
    by (simp add: vp_step_def processing_iteration_def segment_frame_def log_error_def
        stop_recording_def create_task_def start_recording_def detect_callback_irrelevant
        Let_def split: sum.splits option.splits prod.splits)
next
  case Force_stop
  then show ?thesis
    by (simp add: vp_step_def force_stop_recording_def stop_recording_def create_task_def
        Let_def split: sum.splits)
next
  case Run_task
  then show ?thesis
    using assms
    by (simp add: vp_step_def process_audio_def process_audio_body_def log_error_def
        Let_def split: list.splits option.splits)
qed

lemma vp_run_callback_irrelevant:
  assumes "transcription_callback env = Some cb"
    and "s1\<lparr>logged := []\<rparr> = s2\<lparr>logged := []\<rparr>"
  shows "fst (vp_run env cfg evs s1)
           = fst (vp_run (env\<lparr>transcription_callback := Some (\<lambda>a r. None)\<rparr>) cfg evs s2)
       \<and> (snd (vp_run env cfg evs s1))\<lparr>logged := []\<rparr>
           = (snd (vp_run (env\<lparr>transcription_callback := Some (\<lambda>a r. None)\<rparr>) cfg evs s2))
               \<lparr>logged := []\<rparr>"
  using assms(2)
proof (induction evs arbitrary: s1 s2)
  case Nil
  then show ?case by simp
next
  case (Cons ev evs)
  let ?env' = "env\<lparr>transcription_callback := Some (\<lambda>a r. None)\<rparr>"
  from Cons.prems have s1: "s1 = s2\<lparr>logged := logged s1\<rparr>"
    by (rule same_but_log)
  obtain r1 t1 where a: "vp_step env cfg ev s1 = (r1, t1)" by (cases "vp_step env cfg ev s1")
  obtain r2 t2 where b: "vp_step ?env' cfg ev s2 = (r2, t2)" by (cases "vp_step ?env' cfg ev s2")
  from vp_step_callback_irrelevant [OF assms(1), where cfg = cfg and ev = ev and st = s2
      and l = "logged s1"] a b
  have r: "r1 = r2" and t: "t1\<lparr>logged := []\<rparr> = t2\<lparr>logged := []\<rparr>"
    using s1 by (metis fst_conv, metis snd_conv)
  from Cons.IH [OF t] a b r show ?case
    by (auto split: prod.splits)
qed

lemma process_audio_stable_short:
  "duration_of (sample_rate cfg) b < min_duration cfg \<Longrightarrow>
   handed (snd (process_audio_stable cfg tr now b ob)) = handed ob"
  by (simp add: process_audio_stable_def process_audio_stable_body_def cleanup_memory_def
      duration_of_def Let_def)

lemma process_audio_stable_long_enough:
  assumes "0 < sample_rate cfg"
    and "\<not> duration_of (sample_rate cfg) b < min_duration cfg"
    and "\<not> list_all (\<lambda>x. x = 0) b"
    and "\<not> energy_below (1 / 1000) (truncate_audio cfg b)"
    and "normalize_audio (truncate_audio cfg b) = Inr b'"
  shows "handed (snd (process_audio_stable cfg tr now b ob)) = handed ob @ [b']"
proof -
  from assms(3) have "b \<noteq> []" by auto
  with assms show ?thesis
    by (simp add: process_audio_stable_def process_audio_stable_body_def cleanup_memory_def
      duration_of_def Let_def split: option.splits)
qed

lemma stable_iteration_gate:
  assumes "silent_chunk (silence_threshold cfg) c" and "is_speaking st"
    and "silence_duration cfg
           \<le> chunk_time c - (case silence_start st of None \<Rightarrow> chunk_time c | Some t \<Rightarrow> t)"
  shows "started (stable_iteration cfg k c st)
     = started st @ (if k < max_buffers cfg then [audio_buffer_l st @ chunk_samples c] else [])"
proof -
  from assms(1) obtain d now where c: "c = (False, d, now)" and d: "d \<noteq> []"
    and e: "\<not> energy_above (silence_threshold cfg) d"
    by (cases c) (auto simp: silent_chunk_def)
  from assms(3) c have "silence_duration cfg
      \<le> now - (case silence_start st of None \<Rightarrow> now | Some t \<Rightarrow> t)"
    by (cases "silence_start st") (simp_all add: chunk_time_triple)
  with c d e assms(2) show ?thesis
    by (simp add: stable_silent_speaking chunk_samples_triple Let_def)
qed

lemma process_audio_stable_tr_irrelevant:
  "fst (process_audio_stable scfg tr now b ob) = None
   \<and> (snd (process_audio_stable scfg tr now b ob))\<lparr>printed := []\<rparr>
       = (snd (process_audio_stable scfg (\<lambda>a. None) now b ob))\<lparr>printed := []\<rparr>"
  by (simp add: process_audio_stable_def process_audio_stable_body_def Let_def
      split: prod.splits sum.splits option.splits)

lemma process_audio_stable_handed:
  "handed (snd (process_audio_stable scfg tr now u ob))
     = handed ob @
       (if list_all (\<lambda>x. x = 0) u \<or> sample_rate scfg = 0
           \<or> duration_of (sample_rate scfg) u < min_duration scfg
           \<or> energy_below (1 / 1000) (truncate_audio scfg u)
        then []
        else (case normalize_audio (truncate_audio scfg u) of
                Inl e \<Rightarrow> [] | Inr u' \<Rightarrow> [u']))"
proof (cases "u = []")
  case True
  then show ?thesis
    by (simp add: process_audio_stable_def process_audio_stable_body_def cleanup_memory_def
        Let_def)
next
  case False
  then show ?thesis
    by (simp add: process_audio_stable_def process_audio_stable_body_def cleanup_memory_def
        duration_of_def Let_def split: sum.splits option.splits)
qed

lemma process_audio_invoked_none:
  "transcription_callback env = None \<Longrightarrow>
   invoked (snd (process_audio env cfg a st)) = invoked st"
  by (simp add: process_audio_def process_audio_body_def log_error_def Let_def)

lemma process_audio_stable_printed:
  "printed (snd (process_audio_stable scfg tr now b ob))
     = printed ob @
       (if list_all (\<lambda>x. x = 0) b then []
        else if sample_rate scfg = 0 then [ZeroDivisionError]
        else if duration_of (sample_rate scfg) b < min_duration scfg
                \<or> energy_below (1 / 1000) (truncate_audio scfg b) then []
        else (case normalize_audio (truncate_audio scfg b) of
                Inl x \<Rightarrow> [x]
              | Inr b' \<Rightarrow> (case tr b' of None \<Rightarrow> [] | Some x \<Rightarrow> [x])))"
proof (cases "b = []")
  case True
  then show ?thesis
    by (simp add: process_audio_stable_def process_audio_stable_body_def cleanup_memory_def
        Let_def)
next
  case False
  then show ?thesis
    by (simp add: process_audio_stable_def process_audio_stable_body_def cleanup_memory_def
        duration_of_def Let_def split: sum.splits option.splits)
qed

lemma process_audio_stable_raises:
  assumes "0 < sample_rate scfg"
    and "\<not> duration_of (sample_rate scfg) u < min_duration scfg"
    and "\<not> list_all (\<lambda>x. x = 0) u"
    and "\<not> energy_below (1 / 1000) (truncate_audio scfg u)"
    and "normalize_audio (truncate_audio scfg u) = Inr u'"
    and "tr u' = Some x"
  shows "printed (snd (process_audio_stable scfg tr now u ob)) = printed ob @ [x]
     \<and> handed (snd (process_audio_stable scfg tr now u ob)) = handed ob @ [u']"
  using assms
  by (simp add: process_audio_stable_printed process_audio_stable_handed)

section \<open>What an utterance begins with\<close>

lemma begins_with_speech_iff:
  "begins_with_speech is_speech u = (\<exists>n\<le>length u. is_speech (take n u))"
  unfolding begins_with_speech_def list_ex_iff
proof
  assume "\<exists>n\<in>set [0..<Suc (length u)]. is_speech (take n u)"
  then obtain n where "n \<in> set [0..<Suc (length u)]" and s: "is_speech (take n u)"
    by blast
  then have "n \<le> length u"
    by (simp only: set_upt atLeastLessThan_iff less_Suc_eq_le)
  with s show "\<exists>n\<le>length u. is_speech (take n u)"
    by blast
next
  assume "\<exists>n\<le>length u. is_speech (take n u)"
  then obtain n where "n \<le> length u" and s: "is_speech (take n u)"
    by blast
  then have "n \<in> set [0..<Suc (length u)]"
    by (simp only: set_upt atLeastLessThan_iff less_Suc_eq_le) simp
  with s show "\<exists>n\<in>set [0..<Suc (length u)]. is_speech (take n u)"
    by blast
qed

lemma begins_with_speech_frame: "is_speech f \<Longrightarrow> begins_with_speech is_speech (f @ r)"
  unfolding begins_with_speech_iff by (rule exI [of _ "length f"]) simp

lemma begins_with_speech_append:
  assumes "begins_with_speech is_speech u"
  shows "begins_with_speech is_speech (u @ r)"
proof -
  from assms obtain n where n: "n \<le> length u" "is_speech (take n u)"
    unfolding begins_with_speech_iff by blast
  then have "n \<le> length (u @ r)" and "is_speech (take n (u @ r))"
    by simp_all
  then show ?thesis
    unfolding begins_with_speech_iff by blast
qed

lemma vp_inv_step:
  assumes "vp_inv (detect_voice_activity env cfg) st"
  shows "vp_inv (detect_voice_activity env cfg) (snd (vp_step env cfg ev st))"
proof (cases ev)
  case (Audio b)
  with assms show ?thesis
    by (auto simp: vp_step_def audio_callback_def vp_inv_def split: sum.splits)
next
  case (Iteration t)
  show ?thesis
  proof (cases "length (audio_buffer st) < frame_size cfg")
    case True
    with assms Iteration show ?thesis
      by (simp add: vp_step_def processing_iteration_def)
  next
    case False
    define f where "f = take (frame_size cfg) (audio_buffer st)"
    define st1 where "st1 = st\<lparr>audio_buffer := drop (frame_size cfg) (audio_buffer st)\<rparr>"
    have inv1: "vp_inv (detect_voice_activity env cfg) st1"
      using assms by (simp add: st1_def vp_inv_def)
    have "vp_inv (detect_voice_activity env cfg) (log_error (segment_frame env cfg t f st1))"
      using inv1
      by (auto simp: vp_inv_def segment_frame_def log_error_def stop_recording_def
          create_task_def start_recording_def Let_def begins_with_speech_append
          begins_with_speech_frame [where r = "[]", simplified]
          split: if_splits)
    with False Iteration show ?thesis
      by (simp add: vp_step_def processing_iteration_def f_def st1_def Let_def)
  qed
next
  case Force_stop
  with assms show ?thesis
    by (auto simp: vp_step_def force_stop_recording_def stop_recording_def create_task_def
        vp_inv_def Let_def)
next
  case Run_task
  with assms show ?thesis
    by (auto simp: vp_step_def process_audio_def process_audio_body_def log_error_def
        vp_inv_def Let_def split: list.splits option.splits)
qed

lemma vp_inv_run:
  "vp_inv (detect_voice_activity env cfg) st \<Longrightarrow>
   vp_inv (detect_voice_activity env cfg) (snd (vp_run env cfg evs st))"
proof (induction evs arbitrary: st)
  case Nil
  then show ?case by simp
next
  case (Cons ev evs)
  obtain r st1 where step: "vp_step env cfg ev st = (r, st1)"
    by (cases "vp_step env cfg ev st")
  with vp_inv_step [OF Cons.prems, of ev] have "vp_inv (detect_voice_activity env cfg) st1"
    by simp
  from Cons.IH [OF this] step show ?case
    by (cases "vp_run env cfg evs st1") simp
qed

lemma gtk_inv_step:
  assumes "loop_inv (\<lambda>d. detect_voice_activity_gtk cfg d None) st"
  shows "loop_inv (\<lambda>d. detect_voice_activity_gtk cfg d None) (gtk_iteration cfg c st)"
  using assms
  by (cases c)
    (auto simp: loop_inv_def gtk_iteration_def Let_def begins_with_speech_append
      begins_with_speech_frame [where r = "[]", simplified])

lemma gtk_inv_run:
  "loop_inv (\<lambda>d. detect_voice_activity_gtk cfg d None) st \<Longrightarrow>
   loop_inv (\<lambda>d. detect_voice_activity_gtk cfg d None) (gtk_run cfg cs st)"
  by (induction cs arbitrary: st) (simp_all add: gtk_inv_step)

lemma stable_inv_step:
  assumes "loop_inv (energy_above (silence_threshold cfg)) st"
  shows "loop_inv (energy_above (silence_threshold cfg)) (stable_iteration cfg n c st)"
  using assms
  by (cases c)
    (auto simp: loop_inv_def stable_iteration_def Let_def begins_with_speech_append
      begins_with_speech_frame [where r = "[]", simplified])

lemma stable_inv_run:
  "loop_inv (energy_above (silence_threshold cfg)) st \<Longrightarrow>
   loop_inv (energy_above (silence_threshold cfg)) (stable_run cfg cs st)"
  by (induction cs arbitrary: st) (auto simp: stable_inv_step)

text \<open>
  Claim C10. In every run of the capture pipeline from its initial state, whatever the
  interleaving of audio blocks, passes of the loop, force-stops and tasks, every
  utterance pending for dispatch and every utterance the callback was invoked with
  begins with a frame classified as speech; so does every utterance for which the tray
  loops start a processing thread. A frame that is not speech and arrives while idle
  leaves no trace in the accumulator, and the frame that starts a recording becomes the
  whole accumulator: nothing that precedes it is kept.
\<close>

theorem utterances_begin_with_speech:
  "list_all (begins_with_speech (detect_voice_activity env cfg))
     (pending (snd (vp_run env cfg evs vp_init))
        @ map fst (invoked (snd (vp_run env cfg evs vp_init))))
   \<and> list_all (begins_with_speech (\<lambda>d. detect_voice_activity_gtk gcfg d None))
        (started (gtk_run gcfg cs gtk_loop_init))
   \<and> list_all (begins_with_speech (energy_above (silence_threshold scfg)))
        (started (stable_run scfg ds stable_loop_init))
   \<and> (\<not> is_recording st \<and> \<not> detect_voice_activity env cfg f \<longrightarrow>
        segment_frame env cfg t f st = (None, st))
   \<and> (\<not> is_recording st \<and> detect_voice_activity env cfg f \<longrightarrow>
        recording_buffer (snd (segment_frame env cfg t f st)) = f)
   \<and> (\<not> is_speaking gst \<and> \<not> detect_voice_activity_gtk gcfg d None \<longrightarrow>
        audio_buffer_l (gtk_iteration gcfg (False, d, t) gst) = audio_buffer_l gst
        \<and> started (gtk_iteration gcfg (False, d, t) gst) = started gst
        \<and> \<not> is_speaking (gtk_iteration gcfg (False, d, t) gst))
   \<and> (\<not> is_speaking gst \<and> detect_voice_activity_gtk gcfg d None \<longrightarrow>
        audio_buffer_l (gtk_iteration gcfg (False, d, t) gst) = d)
   \<and> (\<not> is_speaking sst \<and> \<not> energy_above (silence_threshold scfg) d \<longrightarrow>
        stable_iteration scfg k (False, d, t) sst = sst)
   \<and> (\<not> is_speaking sst \<and> d \<noteq> [] \<and> energy_above (silence_threshold scfg) d \<longrightarrow>
        audio_buffer_l (stable_iteration scfg k (False, d, t) sst) = d)"
proof -
  have "vp_inv (detect_voice_activity env cfg) vp_init"
    by (simp add: vp_inv_def vp_init_def)
  then have "vp_inv (detect_voice_activity env cfg) (snd (vp_run env cfg evs vp_init))"
    by (rule vp_inv_run)
  then have 1: "list_all (begins_with_speech (detect_voice_activity env cfg))
     (pending (snd (vp_run env cfg evs vp_init))
        @ map fst (invoked (snd (vp_run env cfg evs vp_init))))"
    by (simp add: vp_inv_def)
  have "loop_inv (\<lambda>d. detect_voice_activity_gtk gcfg d None) gtk_loop_init"
    by (simp add: loop_inv_def gtk_loop_init_def)
  then have "loop_inv (\<lambda>d. detect_voice_activity_gtk gcfg d None)
      (gtk_run gcfg cs gtk_loop_init)"
    by (rule gtk_inv_run)
  then have 2: "list_all (begins_with_speech (\<lambda>d. detect_voice_activity_gtk gcfg d None))
        (started (gtk_run gcfg cs gtk_loop_init))"
    by (simp add: loop_inv_def)
  have "loop_inv (energy_above (silence_threshold scfg)) stable_loop_init"
    by (simp add: loop_inv_def stable_loop_init_def)
  then have "loop_inv (energy_above (silence_threshold scfg))
      (stable_run scfg ds stable_loop_init)"
    by (rule stable_inv_run)
  then have 3: "list_all (begins_with_speech (energy_above (silence_threshold scfg)))
        (started (stable_run scfg ds stable_loop_init))"
    by (simp add: loop_inv_def)
  have 4: "\<not> is_recording st \<and> \<not> detect_voice_activity env cfg f \<longrightarrow>
        segment_frame env cfg t f st = (None, st)"
    by (simp add: segment_frame_def)
  have 5: "\<not> is_recording st \<and> detect_voice_activity env cfg f \<longrightarrow>
        recording_buffer (snd (segment_frame env cfg t f st)) = f"
    by (simp add: segment_frame_def start_recording_def)
  have 6: "\<not> is_speaking gst \<and> \<not> detect_voice_activity_gtk gcfg d None \<longrightarrow>
        audio_buffer_l (gtk_iteration gcfg (False, d, t) gst) = audio_buffer_l gst
        \<and> started (gtk_iteration gcfg (False, d, t) gst) = started gst
        \<and> \<not> is_speaking (gtk_iteration gcfg (False, d, t) gst)"
    by (simp add: gtk_iteration_def)
  have 7: "\<not> is_speaking gst \<and> detect_voice_activity_gtk gcfg d None \<longrightarrow>
        audio_buffer_l (gtk_iteration gcfg (False, d, t) gst) = d"
    by (auto simp: gtk_iteration_def gtk_detect_None)
  have 8: "\<not> is_speaking sst \<and> \<not> energy_above (silence_threshold scfg) d \<longrightarrow>
        stable_iteration scfg k (False, d, t) sst = sst"
    by (simp add: stable_iteration_def)
  have 9: "\<not> is_speaking sst \<and> d \<noteq> [] \<and> energy_above (silence_threshold scfg) d \<longrightarrow>
        audio_buffer_l (stable_iteration scfg k (False, d, t) sst) = d"
    by (simp add: stable_iteration_def)
  from 1 2 3 4 5 6 7 8 9 show ?thesis by blast
qed

lemma vp_run_step:
  "vp_step env cfg ev st = (None, st') \<Longrightarrow>
   snd (vp_run env cfg (ev # evs) st) = snd (vp_run env cfg evs st')"
  by (simp split: prod.splits)

lemma short_run:
  "snd (vp_run energy_only_env vp_defaults
       [Audio (1, replicate 480 [1 / 2]), Iteration 0, Force_stop] vp_init)
     = vp_init\<lparr>pending := [replicate 480 (1 / 2)]\<rparr>"
proof -
  have a: "vp_step energy_only_env vp_defaults (Audio (1, replicate 480 [1 / 2])) vp_init
      = (None, vp_init\<lparr>audio_buffer := replicate 480 (1 / 2)\<rparr>)"
    by (simp add: vp_step_def audio_callback_def to_mono_def deque_extend_most_recent
        most_recent_def vp_init_def buffer_maxlen_def vp_defaults_def)
  have b: "vp_step energy_only_env vp_defaults (Iteration 0)
        (vp_init\<lparr>audio_buffer := replicate 480 (1 / 2)\<rparr>)
      = (None, vp_init\<lparr>is_recording := True, recording_buffer := replicate 480 (1 / 2)\<rparr>)"
    by (simp add: vp_step_def processing_iteration_def frame_size_def segment_voiced_idle
        detect_energy_only vp_defaults_def vp_init_def)
  have c: "vp_step energy_only_env vp_defaults Force_stop
        (vp_init\<lparr>is_recording := True, recording_buffer := replicate 480 (1 / 2)\<rparr>)
      = (None, vp_init\<lparr>pending := [replicate 480 (1 / 2)]\<rparr>)"
    by (simp add: vp_step_def force_stop_recording_eq energy_only_env_def vp_init_def)
  have "snd (vp_run energy_only_env vp_defaults
       [Audio (1, replicate 480 [1 / 2]), Iteration 0, Force_stop] vp_init)
      = snd (vp_run energy_only_env vp_defaults [Iteration 0, Force_stop]
          (vp_init\<lparr>audio_buffer := replicate 480 (1 / 2)\<rparr>))"
    by (rule vp_run_step [OF a])
  also have "\<dots> = snd (vp_run energy_only_env vp_defaults [Force_stop]
          (vp_init\<lparr>is_recording := True, recording_buffer := replicate 480 (1 / 2)\<rparr>))"
    by (rule vp_run_step [OF b])
  also have "\<dots> = snd (vp_run energy_only_env vp_defaults []
          (vp_init\<lparr>pending := [replicate 480 (1 / 2)]\<rparr>))"
    by (rule vp_run_step [OF c])
  finally show ?thesis
    by simp
qed

theorem utterances_begin_with_speech_witness:
  "pending (snd (vp_run energy_only_env vp_defaults
       [Audio (1, replicate 480 [1 / 2]), Iteration 0, Force_stop] vp_init))
     = [replicate 480 (1 / 2)]
   \<and> begins_with_speech (detect_voice_activity energy_only_env vp_defaults)
        (replicate 480 (1 / 2))
   \<and> started (stable_run stable_settings (map (Pair 0) (plain_speech 10)) stable_loop_init)
       = [replicate 16000 (1 / 2) @ replicate 33600 0]
   \<and> begins_with_speech (energy_above (silence_threshold stable_settings))
        (replicate 16000 (1 / 2) @ replicate 33600 0)
   \<and> list_all (begins_with_speech (\<lambda>d. detect_voice_activity_gtk gtk_settings d None))
        (started (gtk_run gtk_settings (interrupted_speech 16) gtk_loop_init))
   \<and> segment_frame energy_only_env vp_defaults 0 (replicate 480 0) vp_init = (None, vp_init)
   \<and> recording_buffer (snd (segment_frame energy_only_env vp_defaults 0
        (replicate 480 (1 / 2)) vp_init)) = replicate 480 (1 / 2)
   \<and> audio_buffer_l (gtk_iteration gtk_settings (False, replicate 1600 0, 0) gtk_loop_init)
       = []
   \<and> audio_buffer_l (gtk_iteration gtk_settings (False, replicate 1600 (1 / 2), 0)
        gtk_loop_init) = replicate 1600 (1 / 2)
   \<and> stable_iteration stable_settings 0 (False, replicate 1600 0, 0) stable_loop_init
       = stable_loop_init
   \<and> audio_buffer_l (stable_iteration stable_settings 0 (False, replicate 1600 (1 / 2), 0)
        stable_loop_init) = replicate 1600 (1 / 2)"
proof -
  let ?evs = "[Audio (1, replicate 480 [1 / 2]), Iteration 0, Force_stop]"
  note th1 = utterances_begin_with_speech [where env = energy_only_env and cfg = vp_defaults
      and evs = ?evs and gcfg = gtk_settings and cs = "interrupted_speech 16"
      and scfg = stable_settings and ds = "map (Pair 0) (plain_speech 10)"
      and st = vp_init and f = "replicate 480 0" and t = 0
      and gst = gtk_loop_init and d = "replicate 1600 0" and sst = stable_loop_init and k = 0]
  note th2 = utterances_begin_with_speech [where env = energy_only_env and cfg = vp_defaults
      and evs = ?evs and gcfg = gtk_settings and cs = "interrupted_speech 16"
      and scfg = stable_settings and ds = "map (Pair 0) (plain_speech 10)"
      and st = vp_init and f = "replicate 480 (1 / 2)" and t = 0
      and gst = gtk_loop_init and d = "replicate 1600 (1 / 2)" and sst = stable_loop_init
      and k = 0]
  have st: "stable_run stable_settings (map (Pair 0) (plain_speech 10)) stable_loop_init
      = stable_loop_init\<lparr>started := [replicate 16000 (1 / 2) @ replicate 33600 0]\<rparr>"
    using stable_plain_speech [of 10 0] by simp
  have 1: "pending (snd (vp_run energy_only_env vp_defaults ?evs vp_init))
      = [replicate 480 (1 / 2)]"
    unfolding short_run by simp
  have 2: "begins_with_speech (detect_voice_activity energy_only_env vp_defaults)
        (replicate 480 (1 / 2))"
    using th1 [THEN conjunct1] unfolding short_run by simp
  have 3: "started (stable_run stable_settings (map (Pair 0) (plain_speech 10))
      stable_loop_init) = [replicate 16000 (1 / 2) @ replicate 33600 0]"
    unfolding st by simp
  have 4: "begins_with_speech (energy_above (silence_threshold stable_settings))
        (replicate 16000 (1 / 2) @ replicate 33600 0)"
    using th1 [THEN conjunct2, THEN conjunct2, THEN conjunct1] unfolding st by simp
  note 5 = th1 [THEN conjunct2, THEN conjunct1]
  have idle: "\<not> is_recording vp_init" "\<not> is_speaking gtk_loop_init"
    "\<not> is_speaking stable_loop_init"
    by (simp_all add: vp_init_def gtk_loop_init_def stable_loop_init_def)
  have det: "\<not> detect_voice_activity energy_only_env vp_defaults (replicate 480 0)"
    "detect_voice_activity energy_only_env vp_defaults (replicate 480 (1 / 2))"
    "\<not> detect_voice_activity_gtk gtk_settings (replicate 1600 0) None"
    "detect_voice_activity_gtk gtk_settings (replicate 1600 (1 / 2)) None"
    "\<not> energy_above (silence_threshold stable_settings) (replicate 1600 0)"
    "energy_above (silence_threshold stable_settings) (replicate 1600 (1 / 2))"
    by (simp_all add: detect_energy_only gtk_detect_None energy_above_replicate
        vp_defaults_def gtk_settings_def stable_settings_def)
  have 6: "segment_frame energy_only_env vp_defaults 0 (replicate 480 0) vp_init
      = (None, vp_init)"
    using th1 idle det by blast
  have 7: "recording_buffer (snd (segment_frame energy_only_env vp_defaults 0
        (replicate 480 (1 / 2)) vp_init)) = replicate 480 (1 / 2)"
    using th2 idle det by blast
  have "audio_buffer_l (gtk_iteration gtk_settings (False, replicate 1600 0, 0) gtk_loop_init)
       = audio_buffer_l gtk_loop_init"
    using th1 idle det by blast
  then have 8: "audio_buffer_l (gtk_iteration gtk_settings (False, replicate 1600 0, 0)
      gtk_loop_init) = []"
    by (simp add: gtk_loop_init_def)
  have 9: "audio_buffer_l (gtk_iteration gtk_settings (False, replicate 1600 (1 / 2), 0)
        gtk_loop_init) = replicate 1600 (1 / 2)"
    using th2 idle det by blast
  have 10: "stable_iteration stable_settings 0 (False, replicate 1600 0, 0) stable_loop_init
       = stable_loop_init"
    using th1 idle det by blast
  have ne: "replicate 1600 (1 / 2 :: real) \<noteq> []" by simp
  have 11: "audio_buffer_l (stable_iteration stable_settings 0
      (False, replicate 1600 (1 / 2), 0) stable_loop_init) = replicate 1600 (1 / 2)"
    using th2 idle det ne by blast
  from 1 2 3 4 5 6 7 8 9 10 11 show ?thesis by blast
qed

section \<open>Utterances through the capture pipeline\<close>

lemma detect_never_speech:
  "vad_is_speech env = (\<lambda>pcm rate. Inr False) \<Longrightarrow> 0 < n \<Longrightarrow>
   detect_voice_activity env cfg (replicate n c) = (silence_threshold cfg < \<bar>c\<bar>)"
  by (simp add: detect_voice_activity_def pcm_frame_of_def energy_above_replicate)

lemma segment_silent_timeout_stop:
  "\<not> detect_voice_activity env cfg f \<Longrightarrow> is_recording st \<Longrightarrow>
   silence_duration cfg \<le> t - last_voice_time st \<Longrightarrow>
   segment_frame env cfg t f st = stop_recording env st"
  by (simp add: segment_frame_def)

lemma stop_recording_not_recording:
  "\<not> is_recording (log_error (stop_recording env st))"
  by (simp add: stop_recording_def create_task_def log_error_def Let_def)

lemma utterance_recorded:
  assumes vad: "vad_is_speech env = (\<lambda>pcm rate. Inr False)"
    and idle: "\<not> is_recording st" and m: "0 < m" and c: "1 / 100 < \<bar>c\<bar>"
  shows "feed_frames env vp_defaults
      (frames_at (3 / 100) 480 c i (i + m) @ frames_at (3 / 100) 480 0 (i + m) (i + m + 66)) st
     = st\<lparr>is_recording := True,
          recording_buffer := replicate (m * 480) c @ replicate 31680 0,
          last_voice_time := real (i + m - 1) * (3 / 100),
          recording_start_time := real i * (3 / 100)\<rparr>"
proof -
  let ?fs = "frames_at (3 / 100) 480 c i (i + m)"
  let ?gs = "frames_at (3 / 100) 480 0 (i + m) (i + m + 66)"
  have ne: "?fs \<noteq> []" using m by (simp add: frames_at_nonempty)
  have v: "list_all (\<lambda>(t, f). detect_voice_activity env vp_defaults f) ?fs"
    using c by (simp add: list_all_frames_at detect_never_speech [OF vad] vp_defaults_def)
  have l: "last (map fst ?fs) = real (i + m - 1) * (3 / 100)"
    using m by (simp add: frames_at_last_time)
  have h: "fst (hd ?fs) = real i * (3 / 100)"
    using m by (simp add: frames_at_hd_time)
  have fsamp: "concat (map snd ?fs) = replicate (m * 480) c"
    by (simp add: frames_at_samples)
  have gsamp: "concat (map snd ?gs) = replicate 31680 0"
    by (simp add: frames_at_samples)
  let ?st1 = "st\<lparr>is_recording := True, recording_buffer := replicate (m * 480) c,
          last_voice_time := real (i + m - 1) * (3 / 100),
          recording_start_time := real i * (3 / 100)\<rparr>"
  have a: "feed_frames env vp_defaults ?fs st = ?st1"
    unfolding feed_voiced_idle [OF idle ne v] l h fsamp ..
  have "real k * (3 / 100) - real (i + m - 1) * (3 / 100) < 2" if "k < i + m + 66" for k
  proof -
    from that m have "real k \<le> real (i + m - 1) + 66"
      by (simp add: of_nat_diff) 
    then show ?thesis by simp
  qed
  then have s: "list_all (\<lambda>(t, f). \<not> detect_voice_activity env vp_defaults f
                \<and> t - last_voice_time ?st1 < silence_duration vp_defaults) ?gs"
    by (simp add: list_all_frames_at detect_never_speech [OF vad] vp_defaults_def)
  have b: "feed_frames env vp_defaults ?gs ?st1
      = ?st1\<lparr>recording_buffer := recording_buffer ?st1 @ concat (map snd ?gs)\<rparr>"
    using s by (intro feed_silent_short) simp_all
  show ?thesis
    unfolding feed_frames_append a b gsamp by simp
qed

lemma segment_frame_audio_buffer:
  "log_error (segment_frame env cfg t f (st\<lparr>audio_buffer := b\<rparr>))
     = (log_error (segment_frame env cfg t f st))\<lparr>audio_buffer := b\<rparr>"
  by (simp add: segment_frame_def log_error_def stop_recording_def create_task_def
      start_recording_def Let_def)

lemma feed_frames_audio_buffer:
  "feed_frames env cfg fs (st\<lparr>audio_buffer := b\<rparr>)
     = (feed_frames env cfg fs st)\<lparr>audio_buffer := b\<rparr>"
proof (induction fs arbitrary: st)
  case Nil
  then show ?case by simp
next
  case (Cons x fs)
  obtain t f where x: "x = (t, f)" by (cases x)
  show ?case
    unfolding x feed_frames.simps segment_frame_audio_buffer Cons.IH ..
qed

lemma vp_run_iterations:
  assumes "list_all (\<lambda>x. length (snd x) = frame_size cfg) fs"
    and "audio_buffer st = concat (map snd fs) @ rest"
  shows "vp_run env cfg (map (\<lambda>x. Iteration (fst x)) fs) st
     = ([], (feed_frames env cfg fs st)\<lparr>audio_buffer := rest\<rparr>)"
  using assms
proof (induction fs arbitrary: st)
  case Nil
  then have "st\<lparr>audio_buffer := rest\<rparr> = st" by simp
  then show ?case by simp
next
  case (Cons x fs)
  obtain t f where x: "x = (t, f)" by (cases x)
  from Cons.prems x have len: "length f = frame_size cfg"
    and buf: "audio_buffer st = f @ concat (map snd fs) @ rest"
    by simp_all
  let ?tail = "concat (map snd fs) @ rest"
  let ?st1 = "(log_error (segment_frame env cfg t f st))\<lparr>audio_buffer := ?tail\<rparr>"
  have step: "vp_step env cfg (Iteration t) st = (None, ?st1)"
    using len buf
    by (simp add: vp_step_def processing_iteration_def segment_frame_audio_buffer)
  have "audio_buffer ?st1 = ?tail" by simp
  with Cons.prems have ih: "vp_run env cfg (map (\<lambda>x. Iteration (fst x)) fs) ?st1
      = ([], (feed_frames env cfg fs ?st1)\<lparr>audio_buffer := rest\<rparr>)"
    by (intro Cons.IH) simp_all
  show ?case
    using step ih x by (simp add: feed_frames_audio_buffer)
qed

lemma vp_run_append:
  "vp_run env cfg (evs @ evs') st
     = (fst (vp_run env cfg evs st) @ fst (vp_run env cfg evs' (snd (vp_run env cfg evs st))),
        snd (vp_run env cfg evs' (snd (vp_run env cfg evs st))))"
  by (induction evs arbitrary: st) (simp_all split: prod.splits)

lemma vp_step_mono_block:
  "length (audio_buffer st) + length xs \<le> buffer_maxlen cfg \<Longrightarrow>
   vp_step env cfg (Audio (mono_block xs)) st
     = (None, st\<lparr>audio_buffer := audio_buffer st @ xs\<rparr>)"
  by (simp add: vp_step_def audio_callback_def to_mono_def mono_block_def comp_def
      deque_extend_most_recent most_recent_def)

lemma frames_at_split3:
  "frames_at p n c j (j + 83)
      = frames_at p n c j (j + 66) @ (real (j + 66) * p, replicate n c)
          # frames_at p n c (j + 67) (j + 83)"
proof -
  have 1: "frames_at p n c j (j + 83) = frames_at p n c j (j + 66) @ frames_at p n c (j + 66) (j + 83)"
    by (rule frames_at_split) simp_all
  have 2: "frames_at p n c (j + 66) (j + 83)
      = (real (j + 66) * p, replicate n c) # frames_at p n c (Suc (j + 66)) (j + 83)"
    by (rule frames_at_Cons) simp
  have 3: "Suc (j + 66) = j + 67" by simp
  show ?thesis
    unfolding 1 2 3 ..
qed

lemma utterance_stopped:
  assumes vad: "vad_is_speech env = (\<lambda>pcm rate. Inr False)"
    and idle: "\<not> is_recording st" and m: "0 < m" and c: "1 / 100 < \<bar>c\<bar>"
  shows "feed_frames env vp_defaults (utterance_frames i m c) st
     = log_error (stop_recording env
         (st\<lparr>is_recording := True,
             recording_buffer := replicate (m * 480) c @ replicate 31680 0,
             last_voice_time := real (i + m - 1) * (3 / 100),
             recording_start_time := real i * (3 / 100)\<rparr>))"
proof -
  let ?rec = "st\<lparr>is_recording := True,
             recording_buffer := replicate (m * 480) c @ replicate 31680 0,
             last_voice_time := real (i + m - 1) * (3 / 100),
             recording_start_time := real i * (3 / 100)\<rparr>"
  let ?before = "frames_at (3 / 100) 480 c i (i + m)
      @ frames_at (3 / 100) 480 0 (i + m) (i + m + 66)"
  let ?hs = "frames_at (3 / 100) 480 0 (i + m + 67) (i + m + 83)"
  have whole: "utterance_frames i m c
      = ?before @ (real (i + m + 66) * (3 / 100), replicate 480 0) # ?hs"
    unfolding utterance_frames_def frames_at_split3 [of "3 / 100" 480 0 "i + m"] by simp
  have a: "feed_frames env vp_defaults ?before st = ?rec"
    using vad idle m c by (rule utterance_recorded)
  have quiet: "\<not> detect_voice_activity env vp_defaults (replicate 480 0)"
    by (simp add: detect_never_speech [OF vad] vp_defaults_def)
  have d: "real (i + m - 1) = real i + real m - 1"
    using m by (simp add: of_nat_diff)
  have lv: "last_voice_time ?rec = real (i + m - 1) * (3 / 100)"
    by simp
  have late: "silence_duration vp_defaults
      \<le> real (i + m + 66) * (3 / 100) - last_voice_time ?rec"
    unfolding lv d by (simp add: vp_defaults_def field_simps)
  have b: "segment_frame env vp_defaults (real (i + m + 66) * (3 / 100)) (replicate 480 0) ?rec
      = stop_recording env ?rec"
    using quiet _ late by (rule segment_silent_timeout_stop) simp
  have rest: "feed_frames env vp_defaults ?hs (log_error (stop_recording env ?rec))
      = log_error (stop_recording env ?rec)"
    using stop_recording_not_recording
    by (rule feed_silent_idle)
      (simp add: list_all_frames_at detect_never_speech [OF vad] vp_defaults_def)
  have "feed_frames env vp_defaults (utterance_frames i m c) st
      = feed_frames env vp_defaults
          ((real (i + m + 66) * (3 / 100), replicate 480 0) # ?hs) ?rec"
    unfolding whole feed_frames_append [where fs = ?before] a ..
  also have "\<dots> = feed_frames env vp_defaults ?hs (log_error (stop_recording env ?rec))"
    unfolding feed_frames.simps b ..
  also have "\<dots> = log_error (stop_recording env ?rec)"
    by (rule rest)
  finally show ?thesis .
qed

lemma utterance_frames_samples:
  "concat (map snd (utterance_frames i m c)) = replicate (m * 480) c @ replicate 39840 0"
  by (simp add: utterance_frames_def frames_at_samples)

lemma utterance_frames_lengths:
  "list_all (\<lambda>x. length (snd x) = frame_size vp_defaults) (utterance_frames i m c)"
  by (simp add: utterance_frames_def list_all_frames_at frame_size_def vp_defaults_def)

lemma utterance_events_run:
  assumes vad: "vad_is_speech env = (\<lambda>pcm rate. Inr False)"
    and loop: "running_loop env" and cb: "transcription_callback env = Some cb"
    and idle: "\<not> is_recording st" and empty: "audio_buffer st = []" "pending st = []"
    and m: "0 < m" "m \<le> 900" and c: "1 / 100 < \<bar>c\<bar>"
  shows "vp_run env vp_defaults (utterance_events i m c) st
     = ([], st\<lparr>recording_buffer := [],
           last_voice_time := real (i + m - 1) * (3 / 100),
           recording_start_time := real i * (3 / 100),
           invoked := invoked st @ [(replicate (m * 480) c @ replicate 31680 0, 16000)],
           logged := logged st @
             (case cb (replicate (m * 480) c @ replicate 31680 0) 16000 of
                None \<Rightarrow> [] | Some e \<Rightarrow> [e])\<rparr>)"
proof -
  let ?fs = "utterance_frames i m c"
  let ?xs = "replicate (m * 480) c @ replicate 39840 0"
  let ?u = "replicate (m * 480) c @ replicate 31680 0"
  let ?rec = "st\<lparr>is_recording := True, recording_buffer := ?u,
             last_voice_time := real (i + m - 1) * (3 / 100),
             recording_start_time := real i * (3 / 100)\<rparr>"
  let ?st1 = "st\<lparr>audio_buffer := ?xs\<rparr>"
  let ?st2 = "st\<lparr>recording_buffer := [],
           last_voice_time := real (i + m - 1) * (3 / 100),
           recording_start_time := real i * (3 / 100), pending := [?u]\<rparr>"
  have a: "vp_step env vp_defaults (Audio (mono_block ?xs)) st = (None, ?st1)"
    using vp_step_mono_block [of st ?xs vp_defaults env] empty m
    by (simp add: buffer_maxlen_def vp_defaults_def)
  have stop: "log_error (stop_recording env ?rec) = ?st2"
    using loop idle empty
    by (simp add: stop_recording_def create_task_def log_error_def)
  have feed: "feed_frames env vp_defaults ?fs st = ?st2"
    unfolding utterance_stopped [OF vad idle m(1) c] stop ..
  have "audio_buffer ?st1 = concat (map snd ?fs) @ []"
    by (simp add: utterance_frames_samples)
  with utterance_frames_lengths
  have "vp_run env vp_defaults (map (\<lambda>x. Iteration (fst x)) ?fs) ?st1
      = ([], (feed_frames env vp_defaults ?fs ?st1)\<lparr>audio_buffer := []\<rparr>)"
    by (rule vp_run_iterations)
  also have "(feed_frames env vp_defaults ?fs ?st1)\<lparr>audio_buffer := []\<rparr> = ?st2"
    unfolding feed_frames_audio_buffer feed using empty by simp
  finally have b: "vp_run env vp_defaults (map (\<lambda>x. Iteration (fst x)) ?fs) ?st1 = ([], ?st2)" .
  have c: "vp_run env vp_defaults [Run_task] ?st2
      = ([], st\<lparr>recording_buffer := [],
           last_voice_time := real (i + m - 1) * (3 / 100),
           recording_start_time := real i * (3 / 100),
           invoked := invoked st @ [(?u, 16000)],
           logged := logged st @ (case cb ?u 16000 of None \<Rightarrow> [] | Some e \<Rightarrow> [e])\<rparr>)"
    using cb empty
    by (simp add: vp_step_def process_audio_invoked duration_of_def vp_defaults_def
        split: option.splits)
  have "vp_run env vp_defaults (utterance_events i m c) st
      = vp_run env vp_defaults (map (\<lambda>x. Iteration (fst x)) ?fs @ [Run_task]) ?st1"
    unfolding utterance_events_def utterance_frames_samples using a by simp
  also have "\<dots> = vp_run env vp_defaults [Run_task] ?st2"
    unfolding vp_run_append b by simp
  finally show ?thesis
    unfolding c .
qed

lemma two_utterances_run:
  assumes vad: "vad_is_speech env = (\<lambda>pcm rate. Inr False)"
    and loop: "running_loop env" and cb: "transcription_callback env = Some cb"
  shows "vp_run env vp_defaults
      (utterance_events 0 34 (1 / 2) @ utterance_events 117 20 (1 / 4)) vp_init
     = ([], vp_init\<lparr>last_voice_time := 408 / 100, recording_start_time := 351 / 100,
           invoked := [(replicate 16320 (1 / 2) @ replicate 31680 0, 16000),
                       (replicate 9600 (1 / 4) @ replicate 31680 0, 16000)],
           logged :=
             (case cb (replicate 16320 (1 / 2) @ replicate 31680 0) 16000 of
                None \<Rightarrow> [] | Some e \<Rightarrow> [e])
             @ (case cb (replicate 9600 (1 / 4) @ replicate 31680 0) 16000 of
                None \<Rightarrow> [] | Some e \<Rightarrow> [e])\<rparr>)"
proof -
  let ?u1 = "replicate 16320 (1 / 2) @ replicate 31680 0"
  let ?u2 = "replicate 9600 (1 / 4) @ replicate 31680 0"
  let ?s1 = "vp_init\<lparr>last_voice_time := 99 / 100, invoked := [(?u1, 16000)],
      logged := (case cb ?u1 16000 of None \<Rightarrow> [] | Some e \<Rightarrow> [e])\<rparr>"
  have c: "1 / 100 < \<bar>1 / 2 :: real\<bar>" "1 / 100 < \<bar>1 / 4 :: real\<bar>"
    by simp_all
  have m: "0 < (34::nat)" "(34::nat) \<le> 900" "0 < (20::nat)" "(20::nat) \<le> 900"
    by simp_all
  have i0: "\<not> is_recording vp_init" "audio_buffer vp_init = []" "pending vp_init = []"
    by (simp_all add: vp_init_def)
  have i1: "\<not> is_recording ?s1" "audio_buffer ?s1 = []" "pending ?s1 = []"
    by (simp_all add: vp_init_def)
  have a: "vp_run env vp_defaults (utterance_events 0 34 (1 / 2)) vp_init = ([], ?s1)"
    using utterance_events_run [OF vad loop cb i0 m(1,2) c(1), of 0]
    by (simp add: vp_init_def)
  have b: "vp_run env vp_defaults (utterance_events 117 20 (1 / 4)) ?s1
      = ([], vp_init\<lparr>last_voice_time := 408 / 100, recording_start_time := 351 / 100,
           invoked := [(?u1, 16000), (?u2, 16000)],
           logged := (case cb ?u1 16000 of None \<Rightarrow> [] | Some e \<Rightarrow> [e])
             @ (case cb ?u2 16000 of None \<Rightarrow> [] | Some e \<Rightarrow> [e])\<rparr>)"
    using utterance_events_run [OF vad loop cb i1 m(3,4) c(2), of 117]
    by (simp add: vp_init_def)
  show ?thesis
    by (simp add: vp_run_append a b)
qed

subsection \<open>The scenario of 1.02 s of speech and 2.49 s of silence\<close>

lemma scenario_frames_eq: "scenario_frames = utterance_frames 0 34 (1 / 2)"
  by (simp add: scenario_frames_def utterance_frames_def)

lemma scenario_frames_split:
  "scenario_frames = scenario_before @ frames_at (3 / 100) 480 0 100 117"
  using frames_at_split [of 34 100 117 "3 / 100" 480 0]
  by (simp add: scenario_frames_def scenario_before_def)

lemma scenario_any_env:
  assumes vad: "vad_is_speech env = (\<lambda>pcm rate. Inr False)"
  shows "feed_frames env vp_defaults scenario_before vp_init = scenario_recorded"
    and "feed_frames env vp_defaults scenario_frames vp_init
      = log_error (stop_recording env scenario_recorded)"
proof -
  have idle: "\<not> is_recording vp_init" by (simp add: vp_init_def)
  have m: "0 < (34::nat)" and c: "1 / 100 < \<bar>1 / 2 :: real\<bar>" by simp_all
  have r: "vp_init\<lparr>is_recording := True,
          recording_buffer := replicate (34 * 480) (1 / 2) @ replicate 31680 0,
          last_voice_time := real (0 + 34 - 1) * (3 / 100),
          recording_start_time := real 0 * (3 / 100)\<rparr> = scenario_recorded"
    by (simp add: scenario_recorded_def vp_init_def)
  show "feed_frames env vp_defaults scenario_before vp_init = scenario_recorded"
    using utterance_recorded [OF vad idle m c, of 0] unfolding r
    by (simp add: scenario_before_def)
  show "feed_frames env vp_defaults scenario_frames vp_init
      = log_error (stop_recording env scenario_recorded)"
    using utterance_stopped [OF vad idle m c, of 0] unfolding r
    by (simp add: scenario_frames_eq)
qed

subsection \<open>The processing loop in a thread without an event loop\<close>

text \<open>
  \<open>start_listening\<close> runs \<open>_processing_loop\<close> in a \<open>threading.Thread\<close>, where no event
  loop is running: \<open>asyncio.create_task\<close> raises in \<open>_stop_recording\<close>, the handler of the
  loop logs it, and no task is ever created, whatever the frames.
\<close>

lemma segment_frame_without_loop:
  "\<not> running_loop env \<Longrightarrow>
   pending (log_error (segment_frame env cfg t f st)) = pending st
   \<and> invoked (log_error (segment_frame env cfg t f st)) = invoked st"
  by (simp add: segment_frame_def log_error_def start_recording_def stop_recording_def
      create_task_def Let_def)

lemma processing_loop_without_loop:
  "\<not> running_loop env \<Longrightarrow>
   pending (feed_frames env cfg fs st) = pending st
   \<and> invoked (feed_frames env cfg fs st) = invoked st"
proof (induction fs arbitrary: st)
  case Nil
  then show ?case by simp
next
  case (Cons x fs)
  obtain t f where x: "x = (t, f)" by (cases x)
  show ?case
    unfolding x using Cons.IH [OF Cons.prems] segment_frame_without_loop [OF Cons.prems]
    by simp
qed

section \<open>Force-stop\<close>

text \<open>
  With an event loop running in the calling thread and a callback configured, a
  force-stop while recording ends the recording at once: the object is idle with an
  empty recording buffer, and once the event loop has run the task the callback has been
  invoked with the recorded samples if and only if their duration reaches the floor of
  0.5 s. A force-stop while idle changes no state and dispatches nothing.
\<close>

lemma force_stop_with_running_loop:
  assumes "running_loop env" and "transcription_callback env = Some cb"
    and "0 < sample_rate cfg" and "pending st = []"
  shows "(is_recording st \<longrightarrow>
            fst (vp_run env cfg [Force_stop, Run_task] st) = []
          \<and> \<not> is_recording (snd (vp_step env cfg Force_stop st))
          \<and> recording_buffer (snd (vp_step env cfg Force_stop st)) = []
          \<and> invoked (snd (vp_run env cfg [Force_stop, Run_task] st))
              = invoked st @
                (if 1 / 2 \<le> duration_of (sample_rate cfg) (recording_buffer st)
                 then [(recording_buffer st, sample_rate cfg)] else [])
          \<and> \<not> is_recording (snd (vp_run env cfg [Force_stop, Run_task] st))
          \<and> pending (snd (vp_run env cfg [Force_stop, Run_task] st)) = [])
       \<and> (\<not> is_recording st \<longrightarrow> vp_step env cfg Force_stop st = (None, st))"
proof (cases "is_recording st")
  case False
  then show ?thesis
    by (simp add: vp_step_def force_stop_recording_def)
next
  case True
  show ?thesis
  proof (cases "recording_buffer st = []")
    case True
    with \<open>is_recording st\<close> assms show ?thesis
      by (simp add: vp_step_def force_stop_recording_eq duration_of_def)
  next
    case False
    with \<open>is_recording st\<close> assms show ?thesis
      by (simp add: vp_step_def force_stop_recording_eq process_audio_invoked
          split: option.splits)
  qed
qed

text \<open>A force-stop while idle is a no-op for every caller.\<close>

lemma force_stop_idle_noop:
  "\<not> is_recording st \<Longrightarrow> vp_step env cfg Force_stop st = (None, st)"
  by (simp add: vp_step_def force_stop_recording_def)

text \<open>
  Claim C8, at the input where the code departs from it. \<open>force_stop_recording\<close> is a
  synchronous method, and \<open>_stop_recording\<close> hands the utterance over with
  \<open>asyncio.create_task\<close>, which needs an event loop running in the calling thread.
  Called without one while 8000 samples (0.5 s, the floor) are recorded, the force-stop
  raises \<open>RuntimeError\<close> to its caller: the object is idle, but the recording buffer is
  not cleared, no task is pending and the callback is never invoked, although the floor
  is met. The same call with an event loop running dispatches the utterance, and a
  force-stop while idle is a no-op also without an event loop.
\<close>

theorem force_stop_without_event_loop:
  "vp_run no_loop_env vp_defaults [Force_stop, Run_task]
       (vp_init\<lparr>is_recording := True, recording_buffer := replicate 8000 (1 / 2)\<rparr>)
     = ([RuntimeError], vp_init\<lparr>recording_buffer := replicate 8000 (1 / 2)\<rparr>)
   \<and> 1 / 2 \<le> duration_of (sample_rate vp_defaults) (replicate 8000 (1 / 2) :: real list)
   \<and> transcription_callback no_loop_env = transcription_callback energy_only_env
   \<and> vp_run energy_only_env vp_defaults [Force_stop, Run_task]
       (vp_init\<lparr>is_recording := True, recording_buffer := replicate 8000 (1 / 2)\<rparr>)
     = ([], vp_init\<lparr>invoked := [(replicate 8000 (1 / 2), 16000)]\<rparr>)
   \<and> vp_step no_loop_env vp_defaults Force_stop vp_init = (None, vp_init)"
  by (simp add: vp_step_def force_stop_recording_def stop_recording_def create_task_def
      process_audio_def process_audio_body_def log_error_def no_loop_env_def
      energy_only_env_def vp_defaults_def vp_init_def duration_of_def)

section \<open>The scenario of the specification\<close>

text \<open>
  Claim C9 as stated fails. Fed the scenario (34 voiced frames, 1.02 s, then 83 silent
  frames, 2.49 s), the processing loop ends the recording once, at the silent frame
  handled 2.01 s after the last voiced one, and the utterance it has recorded by then is
  48000 samples, 3.0 s and not about 1.0 s: the silent frames handled before the timeout
  are part of it. This is so with and without an event loop in the thread of the loop;
  with one the callback receives these 48000 samples, without one it receives nothing.
\<close>

theorem scenario_duration_counterexample:
  "feed_frames energy_only_env vp_defaults scenario_frames vp_init
     = log_error (stop_recording energy_only_env scenario_recorded)
   \<and> feed_frames no_loop_env vp_defaults scenario_frames vp_init
     = log_error (stop_recording no_loop_env scenario_recorded)
   \<and> map fst (invoked (snd (vp_step energy_only_env vp_defaults Run_task
        (feed_frames energy_only_env vp_defaults scenario_frames vp_init))))
       = [recording_buffer scenario_recorded]
   \<and> invoked (snd (vp_step no_loop_env vp_defaults Run_task
        (feed_frames no_loop_env vp_defaults scenario_frames vp_init))) = []
   \<and> duration_of 16000 (recording_buffer scenario_recorded) = 3
   \<and> \<not> \<bar>duration_of 16000 (recording_buffer scenario_recorded) - 1\<bar> \<le> 3 / 100"
proof -
  have v1: "vad_is_speech energy_only_env = (\<lambda>pcm rate. Inr False)"
    and v2: "vad_is_speech no_loop_env = (\<lambda>pcm rate. Inr False)"
    by (simp_all add: energy_only_env_def no_loop_env_def)
  note a = scenario_any_env(2) [OF v1]
  note b = scenario_any_env(2) [OF v2]
  have c: "map fst (invoked (snd (vp_step energy_only_env vp_defaults Run_task
        (feed_frames energy_only_env vp_defaults scenario_frames vp_init))))
       = [recording_buffer scenario_recorded]"
    unfolding a
    by (simp add: vp_step_def stop_recording_def create_task_def log_error_def
        process_audio_def process_audio_body_def scenario_recorded_def vp_init_def
        energy_only_env_def vp_defaults_def)
  have d: "invoked (snd (vp_step no_loop_env vp_defaults Run_task
        (feed_frames no_loop_env vp_defaults scenario_frames vp_init))) = []"
    unfolding b
    by (simp add: vp_step_def stop_recording_def create_task_def log_error_def
        scenario_recorded_def vp_init_def no_loop_env_def energy_only_env_def)
  have e: "duration_of 16000 (recording_buffer scenario_recorded) = 3"
    by (simp add: scenario_recorded_def vp_init_def duration_of_def)
  from a b c d e show ?thesis
    by simp
qed

text \<open>
  Claim C9, amended. With 16 kHz mono input, a silence timeout of 2.0 s and a classifier
  that reports no speech, so that the energy decides, the processing loop fed the
  scenario finalizes exactly one utterance, of 3.0 s. After the first 100 frames the
  object is still recording, nothing has been finalized, and the recording buffer holds
  all of them: the 16320 voiced samples (1.02 s) and the 31680 silent samples handled
  before the timeout. The whole scenario is the one call of \<open>_stop_recording\<close> on that
  state, at frame 100, and leaves the object idle. What becomes of the finalized
  utterance is not part of the statement, which holds for every callback and with or
  without an event loop.
\<close>

theorem scenario_finalizes_one_utterance_with_retained_silence:
  "feed_frames (env\<lparr>vad_is_speech := (\<lambda>pcm rate. Inr False)\<rparr>) vp_defaults
       scenario_before vp_init = scenario_recorded
   \<and> scenario_frames = scenario_before @ frames_at (3 / 100) 480 0 100 117
   \<and> feed_frames (env\<lparr>vad_is_speech := (\<lambda>pcm rate. Inr False)\<rparr>) vp_defaults
       scenario_frames vp_init
       = log_error (stop_recording (env\<lparr>vad_is_speech := (\<lambda>pcm rate. Inr False)\<rparr>)
           scenario_recorded)
   \<and> \<not> is_recording (feed_frames (env\<lparr>vad_is_speech := (\<lambda>pcm rate. Inr False)\<rparr>)
         vp_defaults scenario_frames vp_init)
   \<and> recording_buffer scenario_recorded = replicate 16320 (1 / 2) @ replicate 31680 0
   \<and> is_recording scenario_recorded
   \<and> pending scenario_recorded = [] \<and> invoked scenario_recorded = []
   \<and> logged scenario_recorded = []
   \<and> duration_of 16000 (recording_buffer scenario_recorded) = 3
   \<and> duration_of 16000 (replicate 16320 (1 / 2) :: real list) = 102 / 100"
proof -
  let ?env = "env\<lparr>vad_is_speech := (\<lambda>pcm rate. Inr False)\<rparr>"
  have vad: "vad_is_speech ?env = (\<lambda>pcm rate. Inr False)" by simp
  note a = scenario_any_env(1) [OF vad]
  note b = scenario_any_env(2) [OF vad]
  have c: "\<not> is_recording (feed_frames ?env vp_defaults scenario_frames vp_init)"
    unfolding b by (rule stop_recording_not_recording)
  have d: "recording_buffer scenario_recorded = replicate 16320 (1 / 2) @ replicate 31680 0"
    "is_recording scenario_recorded" "pending scenario_recorded = []"
    "invoked scenario_recorded = []" "logged scenario_recorded = []"
    "duration_of 16000 (recording_buffer scenario_recorded) = 3"
    "duration_of 16000 (replicate 16320 (1 / 2) :: real list) = 102 / 100"
    by (simp_all add: scenario_recorded_def vp_init_def duration_of_def)
  from a scenario_frames_split b c d show ?thesis
    by blast
qed

section \<open>The minimum-duration floor\<close>

text \<open>
  Claim C3 as stated fails in the stable tray application: an utterance of 3.1 s, above
  the floor of 1.0 s, is finalized and not dispatched when three processing threads are
  already counted (the same stream is dispatched when none is).
\<close>

theorem floor_counterexample:
  "started (stable_run stable_settings (map (Pair 3) (plain_speech 10)) stable_loop_init) = []
   \<and> started (stable_run stable_settings (map (Pair 0) (plain_speech 10)) stable_loop_init)
       = [replicate 16000 (1 / 2) @ replicate 33600 0]
   \<and> min_duration stable_settings
       \<le> duration_of (sample_rate stable_settings) (replicate 16000 (1 / 2) @ replicate 33600 0)"
proof -
  have a: "stable_run stable_settings (map (Pair 3) (plain_speech 10)) stable_loop_init
      = stable_loop_init\<lparr>started := []\<rparr>"
    using stable_plain_speech [of 10 3] by simp
  have b: "stable_run stable_settings (map (Pair 0) (plain_speech 10)) stable_loop_init
      = stable_loop_init\<lparr>started := [replicate 16000 (1 / 2) @ replicate 33600 0]\<rparr>"
    using stable_plain_speech [of 10 0] by simp
  show ?thesis
    unfolding a b by (simp add: stable_settings_def duration_of_def)
qed

text \<open>
  Claim C3, amended. An utterance below the floor never reaches the consumer:
  \<open>_process_audio\<close> of the capture pipeline invokes the callback if and only if the
  duration is at least 0.5 s, and the stable tray application hands nothing to the
  transcription below \<open>min_duration\<close>. At or above the floor the stable tray
  application dispatches if and only if the further gates of its code are passed: the
  loop starts the processing thread if and only if \<open>audio_buffer_count < max_buffers\<close>,
  and the thread hands the audio on if and only if it is not all zeros and, once
  truncated, not quieter than an RMS of 0.001 (the sample rate being positive and the
  truncation leaving samples to normalize). All-zero audio and quiet audio are never
  handed on, whatever their duration.
\<close>

theorem floor_and_further_gates:
  "(transcription_callback env = Some cb \<and> 0 < sample_rate cfg \<longrightarrow>
      invoked (snd (process_audio env cfg a st))
        = invoked st @ (if duration_of (sample_rate cfg) a < 1 / 2 then []
                        else [(a, sample_rate cfg)]))
   \<and> (duration_of (sample_rate scfg) b < min_duration scfg \<longrightarrow>
      handed (snd (process_audio_stable scfg tr now b ob)) = handed ob)
   \<and> (0 < sample_rate scfg \<and> \<not> duration_of (sample_rate scfg) u < min_duration scfg
       \<and> \<not> list_all (\<lambda>x. x = 0) u \<and> \<not> energy_below (1 / 1000) (truncate_audio scfg u)
       \<and> normalize_audio (truncate_audio scfg u) = Inr u' \<longrightarrow>
      handed (snd (process_audio_stable scfg tr now u ob)) = handed ob @ [u'])
   \<and> (silent_chunk (silence_threshold scfg) c \<and> is_speaking sst
       \<and> silence_duration scfg
           \<le> chunk_time c - (case silence_start sst of None \<Rightarrow> chunk_time c | Some t \<Rightarrow> t)
       \<longrightarrow>
      started (stable_iteration scfg k c sst)
        = started sst @ (if k < max_buffers scfg then [audio_buffer_l sst @ chunk_samples c]
                         else []))
   \<and> (list_all (\<lambda>x. x = 0) z \<longrightarrow>
      handed (snd (process_audio_stable scfg tr now z ob)) = handed ob)
   \<and> (energy_below (1 / 1000) (truncate_audio scfg q) \<longrightarrow>
      handed (snd (process_audio_stable scfg tr now q ob)) = handed ob)
   \<and> handed (snd (process_audio_stable scfg tr now w ob))
       = handed ob @
         (if list_all (\<lambda>x. x = 0) w \<or> sample_rate scfg = 0
             \<or> duration_of (sample_rate scfg) w < min_duration scfg
             \<or> energy_below (1 / 1000) (truncate_audio scfg w)
          then []
          else (case normalize_audio (truncate_audio scfg w) of
                  Inl e \<Rightarrow> [] | Inr w' \<Rightarrow> [w']))"
proof -
  note 1 = process_audio_invoked [of env cb cfg a st]
  note 2 = process_audio_stable_short [of scfg b tr now ob]
  note 3 = process_audio_stable_long_enough [of scfg u u' tr now ob]
  note 4 = stable_iteration_gate [of scfg c sst k]
  note 5 = process_audio_stable_handed [of scfg tr now z ob]
  note 6 = process_audio_stable_handed [of scfg tr now q ob]
  note 7 = process_audio_stable_handed [of scfg tr now w ob]
  from 1 have c1: "transcription_callback env = Some cb \<and> 0 < sample_rate cfg \<longrightarrow>
      invoked (snd (process_audio env cfg a st))
        = invoked st @ (if duration_of (sample_rate cfg) a < 1 / 2 then []
                        else [(a, sample_rate cfg)])"
    by (auto split: option.splits)
  from 5 have c5: "list_all (\<lambda>x. x = 0) z \<longrightarrow>
      handed (snd (process_audio_stable scfg tr now z ob)) = handed ob"
    by simp
  from 6 have c6: "energy_below (1 / 1000) (truncate_audio scfg q) \<longrightarrow>
      handed (snd (process_audio_stable scfg tr now q ob)) = handed ob"
    by simp
  from c1 2 3 4 c5 c6 7 show ?thesis
    by blast
qed

theorem floor_and_further_gates_witness:
  "invoked (snd (process_audio energy_only_env vp_defaults (replicate 8000 (1 / 2)) vp_init))
     = [(replicate 8000 (1 / 2), 16000)]
   \<and> handed (snd (process_audio_stable stable_settings (\<lambda>a. None) 0
        (replicate 8000 (1 / 2)) stable_obj_init)) = []
   \<and> handed (snd (process_audio_stable stable_settings (\<lambda>a. None) 0
        (replicate 16000 (1 / 2)) stable_obj_init)) = [replicate 16000 (9 / 10)]
   \<and> started (stable_iteration stable_settings 0 (False, replicate 1600 0, 3)
        (stable_loop_init\<lparr>is_speaking := True, silence_start := Some 1,
           audio_buffer_l := replicate 16000 (1 / 2)\<rparr>))
       = [replicate 16000 (1 / 2) @ replicate 1600 0]
   \<and> started (stable_iteration stable_settings 3 (False, replicate 1600 0, 3)
        (stable_loop_init\<lparr>is_speaking := True, silence_start := Some 1,
           audio_buffer_l := replicate 16000 (1 / 2)\<rparr>)) = []
   \<and> handed (snd (process_audio_stable stable_settings (\<lambda>a. None) 0
        (replicate 16000 0) stable_obj_init)) = []
   \<and> handed (snd (process_audio_stable stable_settings (\<lambda>a. None) 0
        (replicate 16000 (1 / 2000)) stable_obj_init)) = []
   \<and> handed (snd (process_audio_stable stable_settings (\<lambda>a. None) 0
        (replicate 32000 (1 / 4)) stable_obj_init)) = [replicate 32000 (9 / 10)]"
proof -
  let ?sst = "stable_loop_init\<lparr>is_speaking := True, silence_start := Some 1,
           audio_buffer_l := replicate 16000 (1 / 2)\<rparr>"
  note th = floor_and_further_gates [where env = energy_only_env
      and cb = "\<lambda>audio_data rate. None" and cfg = vp_defaults
      and a = "replicate 8000 (1 / 2)" and st = vp_init and scfg = stable_settings
      and b = "replicate 8000 (1 / 2)" and tr = "\<lambda>a. None" and now = 0
      and ob = stable_obj_init and u = "replicate 16000 (1 / 2)"
      and u' = "replicate 16000 (9 / 10)" and c = "(False, replicate 1600 0, 3)"
      and sst = ?sst and z = "replicate 16000 0" and q = "replicate 16000 (1 / 2000)"
      and w = "replicate 32000 (1 / 4)"]
  have t: "truncate_audio stable_settings (replicate 16000 (1 / 2)) = replicate 16000 (1 / 2)"
    "truncate_audio stable_settings (replicate 16000 (1 / 2000)) = replicate 16000 (1 / 2000)"
    "truncate_audio stable_settings (replicate 32000 (1 / 4)) = replicate 32000 (1 / 4)"
    by (simp_all add: truncate_audio_def stable_settings_def)
  have a: "invoked (snd (process_audio energy_only_env vp_defaults (replicate 8000 (1 / 2))
      vp_init)) = [(replicate 8000 (1 / 2), 16000)]"
    using th [THEN conjunct1]
    by (simp add: energy_only_env_def vp_defaults_def duration_of_def vp_init_def)
  have b: "handed (snd (process_audio_stable stable_settings (\<lambda>a. None) 0
        (replicate 8000 (1 / 2)) stable_obj_init)) = []"
    using th [THEN conjunct2, THEN conjunct1]
    by (simp add: stable_settings_def duration_of_def stable_obj_init_def)
  have c: "handed (snd (process_audio_stable stable_settings (\<lambda>a. None) 0
        (replicate 16000 (1 / 2)) stable_obj_init)) = [replicate 16000 (9 / 10)]"
    using th [THEN conjunct2, THEN conjunct2, THEN conjunct1]
    unfolding t
    by (simp add: stable_settings_def duration_of_def stable_obj_init_def
        list_all_zero_replicate energy_below_replicate normalize_replicate)
  have d: "started (stable_iteration stable_settings 0 (False, replicate 1600 0, 3) ?sst)
       = [replicate 16000 (1 / 2) @ replicate 1600 0]"
    using th [where k = 0, THEN conjunct2, THEN conjunct2, THEN conjunct2, THEN conjunct1]
    by (simp add: stable_settings_def stable_loop_init_def silent_chunk_replicate
        chunk_time_triple chunk_samples_triple)
  have e: "started (stable_iteration stable_settings 3 (False, replicate 1600 0, 3) ?sst) = []"
    using th [where k = 3, THEN conjunct2, THEN conjunct2, THEN conjunct2, THEN conjunct1]
    by (simp add: stable_settings_def stable_loop_init_def silent_chunk_replicate
        chunk_time_triple chunk_samples_triple)
  have f: "handed (snd (process_audio_stable stable_settings (\<lambda>a. None) 0
        (replicate 16000 0) stable_obj_init)) = []"
    using th [THEN conjunct2, THEN conjunct2, THEN conjunct2, THEN conjunct2, THEN conjunct1]
    by (simp add: list_all_zero_replicate stable_obj_init_def)
  have g: "handed (snd (process_audio_stable stable_settings (\<lambda>a. None) 0
        (replicate 16000 (1 / 2000)) stable_obj_init)) = []"
    using th [THEN conjunct2, THEN conjunct2, THEN conjunct2, THEN conjunct2, THEN conjunct2,
        THEN conjunct1]
    unfolding t by (simp add: energy_below_replicate stable_obj_init_def)
  have h: "handed (snd (process_audio_stable stable_settings (\<lambda>a. None) 0
        (replicate 32000 (1 / 4)) stable_obj_init)) = [replicate 32000 (9 / 10)]"
    using th [THEN conjunct2, THEN conjunct2, THEN conjunct2, THEN conjunct2, THEN conjunct2,
        THEN conjunct2]
    unfolding t
    by (simp add: stable_settings_def duration_of_def stable_obj_init_def
        list_all_zero_replicate energy_below_replicate normalize_replicate)
  from a b c d e f g h show ?thesis by blast
qed

section \<open>Exceptions of the consumer\<close>

text \<open>
  Claim C4. Whatever the callback raises, no exception leaves \<open>_process_audio\<close>, the
  task that runs it or a pass of the processing loop; the exception is logged where the
  utterance was dispatched. On every sequence of events the pipeline ends in the same
  state, with the same calls of the callback in the same order, as with a callback that
  never raises, the log apart: the utterances that follow are segmented and dispatched
  all the same. The processing thread of the stable tray application likewise returns
  and leaves the object as a transcription that never raises does, what it printed
  apart, and its handler prints the exception that the transcription raised.
\<close>

theorem consumer_exception_contained:
  assumes "transcription_callback env = Some cb"
  shows "fst (process_audio env cfg a st) = None
     \<and> fst (vp_step env cfg Run_task st) = None
     \<and> fst (vp_step env cfg (Iteration t) st) = None
     \<and> (0 < sample_rate cfg \<and> \<not> duration_of (sample_rate cfg) a < 1 / 2
         \<and> cb a (sample_rate cfg) = Some e \<longrightarrow>
        snd (process_audio env cfg a st)
          = st\<lparr>invoked := invoked st @ [(a, sample_rate cfg)], logged := logged st @ [e]\<rparr>)
     \<and> fst (vp_run env cfg evs st)
          = fst (vp_run (env\<lparr>transcription_callback := Some (\<lambda>a r. None)\<rparr>) cfg evs st)
     \<and> (snd (vp_run env cfg evs st))\<lparr>logged := []\<rparr>
          = (snd (vp_run (env\<lparr>transcription_callback := Some (\<lambda>a r. None)\<rparr>) cfg evs st))
              \<lparr>logged := []\<rparr>
     \<and> fst (process_audio_stable scfg tr now b ob) = None
     \<and> (snd (process_audio_stable scfg tr now b ob))\<lparr>printed := []\<rparr>
          = (snd (process_audio_stable scfg (\<lambda>a. None) now b ob))\<lparr>printed := []\<rparr>
     \<and> (0 < sample_rate scfg \<and> \<not> duration_of (sample_rate scfg) u < min_duration scfg
         \<and> \<not> list_all (\<lambda>x. x = 0) u \<and> \<not> energy_below (1 / 1000) (truncate_audio scfg u)
         \<and> normalize_audio (truncate_audio scfg u) = Inr u' \<and> tr u' = Some x \<longrightarrow>
        printed (snd (process_audio_stable scfg tr now u ob)) = printed ob @ [x]
        \<and> handed (snd (process_audio_stable scfg tr now u ob)) = handed ob @ [u'])
     \<and> printed (snd (process_audio_stable scfg tr now b ob))
          = printed ob @
            (if list_all (\<lambda>x. x = 0) b then []
             else if sample_rate scfg = 0 then [ZeroDivisionError]
             else if duration_of (sample_rate scfg) b < min_duration scfg
                     \<or> energy_below (1 / 1000) (truncate_audio scfg b) then []
             else (case normalize_audio (truncate_audio scfg b) of
                     Inl x \<Rightarrow> [x]
                   | Inr b' \<Rightarrow> (case tr b' of None \<Rightarrow> [] | Some x \<Rightarrow> [x])))"
proof -
  have 1: "fst (process_audio env cfg a st) = None"
    by (simp add: process_audio_def)
  have 2: "fst (vp_step env cfg Run_task st) = None"
    by (simp add: vp_step_def process_audio_def split: list.splits)
  have 3: "fst (vp_step env cfg (Iteration t) st) = None"
    by (simp add: vp_step_def)
  have 4: "0 < sample_rate cfg \<and> \<not> duration_of (sample_rate cfg) a < 1 / 2
         \<and> cb a (sample_rate cfg) = Some e \<longrightarrow>
        snd (process_audio env cfg a st)
          = st\<lparr>invoked := invoked st @ [(a, sample_rate cfg)], logged := logged st @ [e]\<rparr>"
    using assms by (simp add: process_audio_invoked)
  have 5: "fst (vp_run env cfg evs st)
          = fst (vp_run (env\<lparr>transcription_callback := Some (\<lambda>a r. None)\<rparr>) cfg evs st)
     \<and> (snd (vp_run env cfg evs st))\<lparr>logged := []\<rparr>
          = (snd (vp_run (env\<lparr>transcription_callback := Some (\<lambda>a r. None)\<rparr>) cfg evs st))
              \<lparr>logged := []\<rparr>"
    using assms by (rule vp_run_callback_irrelevant) simp
  note 6 = process_audio_stable_tr_irrelevant [of scfg tr now b ob]
  note 7 = process_audio_stable_raises [of scfg u u' tr x now ob]
  note 8 = process_audio_stable_printed [of scfg tr now b ob]
  from 1 2 3 4 5 6 7 8 show ?thesis by blast
qed

theorem consumer_exception_contained_witness:
  "transcription_callback raising_env
     = Some (\<lambda>audio_data rate. if length audio_data = 48000 then Some (ConsumerError 1) else None)
   \<and> fst (vp_run raising_env vp_defaults
        (utterance_events 0 34 (1 / 2) @ utterance_events 117 20 (1 / 4)) vp_init) = []
   \<and> invoked (snd (vp_run raising_env vp_defaults
        (utterance_events 0 34 (1 / 2) @ utterance_events 117 20 (1 / 4)) vp_init))
       = [(replicate 16320 (1 / 2) @ replicate 31680 0, 16000),
          (replicate 9600 (1 / 4) @ replicate 31680 0, 16000)]
   \<and> logged (snd (vp_run raising_env vp_defaults
        (utterance_events 0 34 (1 / 2) @ utterance_events 117 20 (1 / 4)) vp_init))
       = [ConsumerError 1]
   \<and> printed (snd (process_audio_stable stable_settings (\<lambda>a. Some (ConsumerError 2)) 0
        (replicate 16000 (1 / 2)) stable_obj_init)) = [ConsumerError 2]
   \<and> handed (snd (process_audio_stable stable_settings (\<lambda>a. Some (ConsumerError 2)) 0
        (replicate 16000 (1 / 2)) stable_obj_init)) = [replicate 16000 (9 / 10)]
   \<and> fst (process_audio_stable stable_settings (\<lambda>a. Some (ConsumerError 2)) 0
        (replicate 16000 (1 / 2)) stable_obj_init) = None"
proof -
  let ?cb = "\<lambda>(audio_data :: real list) (rate :: nat).
      if length audio_data = 48000 then Some (ConsumerError 1) else None"
  let ?evs = "utterance_events 0 34 (1 / 2) @ utterance_events 117 20 (1 / 4)"
  let ?quiet = "raising_env\<lparr>transcription_callback := Some (\<lambda>a r. None)\<rparr>"
  let ?tr = "\<lambda>a :: real list. Some (ConsumerError 2)"
  have h: "transcription_callback raising_env = Some ?cb"
    by (simp add: raising_env_def)
  note th = consumer_exception_contained [OF h, where cfg = vp_defaults and st = vp_init
      and evs = ?evs and scfg = stable_settings and tr = ?tr and now = 0
      and b = "replicate 16000 (1 / 2)" and ob = stable_obj_init
      and u = "replicate 16000 (1 / 2)" and u' = "replicate 16000 (9 / 10)"
      and x = "ConsumerError 2"]
  have quiet: "vp_run ?quiet vp_defaults ?evs vp_init
      = ([], vp_init\<lparr>last_voice_time := 408 / 100, recording_start_time := 351 / 100,
          invoked := [(replicate 16320 (1 / 2) @ replicate 31680 0, 16000),
                      (replicate 9600 (1 / 4) @ replicate 31680 0, 16000)]\<rparr>)"
    using two_utterances_run [of ?quiet "\<lambda>a r. None"]
    by (simp add: raising_env_def energy_only_env_def vp_init_def)
  from th have a: "fst (vp_run raising_env vp_defaults ?evs vp_init) = []"
    unfolding quiet by simp
  from th have "(snd (vp_run raising_env vp_defaults ?evs vp_init))\<lparr>logged := []\<rparr>
      = (vp_init\<lparr>last_voice_time := 408 / 100, recording_start_time := 351 / 100,
          invoked := [(replicate 16320 (1 / 2) @ replicate 31680 0, 16000),
                      (replicate 9600 (1 / 4) @ replicate 31680 0, 16000)]\<rparr>)\<lparr>logged := []\<rparr>"
    unfolding quiet by simp
  from arg_cong [OF this, of invoked]
  have b: "invoked (snd (vp_run raising_env vp_defaults ?evs vp_init))
      = [(replicate 16320 (1 / 2) @ replicate 31680 0, 16000),
         (replicate 9600 (1 / 4) @ replicate 31680 0, 16000)]"
    by simp
  have c: "logged (snd (vp_run raising_env vp_defaults ?evs vp_init)) = [ConsumerError 1]"
    using two_utterances_run [of raising_env ?cb]
    by (simp add: raising_env_def energy_only_env_def vp_init_def)
  have t: "truncate_audio stable_settings (replicate 16000 (1 / 2)) = replicate 16000 (1 / 2)"
    by (simp add: truncate_audio_def stable_settings_def)
  have gates: "0 < sample_rate stable_settings
      \<and> \<not> duration_of (sample_rate stable_settings) (replicate 16000 (1 / 2))
            < min_duration stable_settings
      \<and> \<not> list_all (\<lambda>x. x = 0) (replicate 16000 (1 / 2 :: real))
      \<and> \<not> energy_below (1 / 1000) (truncate_audio stable_settings (replicate 16000 (1 / 2)))
      \<and> normalize_audio (truncate_audio stable_settings (replicate 16000 (1 / 2)))
          = Inr (replicate 16000 (9 / 10))
      \<and> ?tr (replicate 16000 (9 / 10)) = Some (ConsumerError 2)"
    unfolding t
    by (simp add: stable_settings_def duration_of_def list_all_zero_replicate
        energy_below_replicate normalize_replicate)
  from th gates
  have d: "printed (snd (process_audio_stable stable_settings ?tr 0
        (replicate 16000 (1 / 2)) stable_obj_init)) = printed stable_obj_init @ [ConsumerError 2]
      \<and> handed (snd (process_audio_stable stable_settings ?tr 0
        (replicate 16000 (1 / 2)) stable_obj_init))
          = handed stable_obj_init @ [replicate 16000 (9 / 10)]"
    by blast
  from th have e: "fst (process_audio_stable stable_settings ?tr 0
        (replicate 16000 (1 / 2)) stable_obj_init) = None"
    by blast
  from h a b c d e show ?thesis
    by (simp add: stable_obj_init_def)
qed

section \<open>Long utterances\<close>

text \<open>
  Claim C2 as stated fails. Fed 30.03 s of voiced frames and nothing else, the capture
  pipeline dispatches nothing and keeps recording, with every frame in its buffer. Fed
  20 s of voiced chunks, the stable tray loop starts no processing thread; when 2.1 s
  of silence follow it starts one, for the whole recording, and that thread hands to
  the transcription the first 15 s only: one utterance, and the last 5 s of speech in
  none.
\<close>

theorem continuous_stream_counterexample:
  "pending (feed_frames energy_only_env vp_defaults
       (frames_at (3 / 100) 480 (1 / 2) 0 1001) vp_init) = []
   \<and> is_recording (feed_frames energy_only_env vp_defaults
       (frames_at (3 / 100) 480 (1 / 2) 0 1001) vp_init)
   \<and> length (recording_buffer (feed_frames energy_only_env vp_defaults
       (frames_at (3 / 100) 480 (1 / 2) 0 1001) vp_init)) = 480480
   \<and> started (stable_run stable_settings
       (map (Pair 0) (chunks_at (1 / 10) 1600 (1 / 2) 0 200)) stable_loop_init) = []
   \<and> started (stable_run stable_settings (map (Pair 0) (plain_speech 200)) stable_loop_init)
       = [replicate 320000 (1 / 2) @ replicate 33600 0]
   \<and> handed (snd (process_audio_stable stable_settings (\<lambda>a. None) 0
       (replicate 320000 (1 / 2) @ replicate 33600 0) stable_obj_init))
       = [replicate 240000 (9 / 10)]"
proof -
  have a: "stable_run stable_settings (map (Pair 0) (plain_speech 200)) stable_loop_init
      = stable_loop_init\<lparr>started := [replicate 320000 (1 / 2) @ replicate 33600 0]\<rparr>"
    using stable_plain_speech [of 200 0] by simp
  show ?thesis
    unfolding long_voiced_capture stable_long_voiced a process_long
    by (simp add: vp_init_def stable_loop_init_def stable_obj_init_def)
qed

text \<open>
  Claim C2, amended. The processing loop of the capture pipeline does not force-finalize:
  on a stream of voiced frames of any length it stays in RECORDING, keeps every frame in
  the accumulator and dispatches nothing. The loop of the stable tray application does
  the same while the chunks stay voiced, and the application instead cuts a finalized
  utterance that is longer than \<open>max_duration\<close> down to its first
  \<open>int(max_duration * sample_rate)\<close> samples before the transcription; the samples
  beyond are dropped, not dispatched as a continuation.
\<close>

theorem no_forced_split_only_truncation:
  "(fs \<noteq> [] \<and> list_all (\<lambda>(t, f). detect_voice_activity env cfg f) fs \<longrightarrow>
      pending (feed_frames env cfg fs st) = pending st
      \<and> invoked (feed_frames env cfg fs st) = invoked st
      \<and> is_recording (feed_frames env cfg fs st)
      \<and> recording_buffer (feed_frames env cfg fs st)
          = (if is_recording st then recording_buffer st else []) @ concat (map snd fs))
   \<and> (ds \<noteq> [] \<and> list_all (voiced_chunk (silence_threshold scfg)) (map snd ds) \<longrightarrow>
      started (stable_run scfg ds sst) = started sst
      \<and> is_speaking (stable_run scfg ds sst)
      \<and> audio_buffer_l (stable_run scfg ds sst)
          = (if is_speaking sst then audio_buffer_l sst else [])
              @ concat (map (\<lambda>x. chunk_samples (snd x)) ds))
   \<and> (0 < sample_rate scfg \<and> 0 \<le> max_duration scfg
       \<and> max_duration scfg < duration_of (sample_rate scfg) a \<longrightarrow>
      truncate_audio scfg a = take (nat \<lfloor>max_duration scfg * real (sample_rate scfg)\<rfloor>) a)"
  by (simp add: feed_voiced_any stable_run_voiced_any truncate_audio_take)

theorem no_forced_split_only_truncation_witness:
  "is_recording (feed_frames energy_only_env vp_defaults
       (frames_at (3 / 100) 480 (1 / 2) 0 1001) vp_init)
   \<and> pending (feed_frames energy_only_env vp_defaults
       (frames_at (3 / 100) 480 (1 / 2) 0 1001) vp_init) = []
   \<and> recording_buffer (feed_frames energy_only_env vp_defaults
       (frames_at (3 / 100) 480 (1 / 2) 0 1001) vp_init) = replicate 480480 (1 / 2)
   \<and> started (stable_run stable_settings
       (map (Pair 0) (chunks_at (1 / 10) 1600 (1 / 2) 0 200)) stable_loop_init) = []
   \<and> audio_buffer_l (stable_run stable_settings
       (map (Pair 0) (chunks_at (1 / 10) 1600 (1 / 2) 0 200)) stable_loop_init)
       = replicate 320000 (1 / 2)
   \<and> truncate_audio stable_settings (replicate 320000 (1 / 2)) = replicate 240000 (1 / 2)"
proof -
  let ?fs = "frames_at (3 / 100) 480 (1 / 2) 0 1001"
  let ?cs = "chunks_at (1 / 10) 1600 (1 / 2) 0 200"
  let ?ds = "map (Pair (0::int)) ?cs"
  note th = no_forced_split_only_truncation [where fs = ?fs and env = energy_only_env
      and cfg = vp_defaults and st = vp_init and ds = ?ds and scfg = stable_settings
      and sst = stable_loop_init and a = "replicate 320000 (1 / 2)"]
  have f1: "?fs \<noteq> []" by (simp add: frames_at_nonempty)
  have f2: "list_all (\<lambda>(t, f). detect_voice_activity energy_only_env vp_defaults f) ?fs"
    by (simp add: list_all_frames_at detect_energy_only vp_defaults_def)
  have d1: "?ds \<noteq> []" by (simp add: chunks_at_nonempty)
  have d2: "list_all (voiced_chunk (silence_threshold stable_settings)) (map snd ?ds)"
    by (simp add: comp_def list_all_chunks_at voiced_chunk_replicate stable_settings_def)
  have d3: "concat (map (\<lambda>x. chunk_samples (snd x)) ?ds) = replicate 320000 (1 / 2)"
    using chunks_at_samples [of "1 / 10" 1600 "1 / 2" 0 200] by (simp add: comp_def)
  have a1: "0 < sample_rate stable_settings \<and> 0 \<le> max_duration stable_settings
       \<and> max_duration stable_settings
           < duration_of (sample_rate stable_settings) (replicate 320000 (1 / 2))"
    by (simp add: stable_settings_def duration_of_def)
  have a2: "nat \<lfloor>max_duration stable_settings * real (sample_rate stable_settings)\<rfloor> = 240000"
    by (simp add: stable_settings_def)
  from th [THEN conjunct1] f1 f2
  have 1: "is_recording (feed_frames energy_only_env vp_defaults ?fs vp_init)
      \<and> pending (feed_frames energy_only_env vp_defaults ?fs vp_init) = []
      \<and> recording_buffer (feed_frames energy_only_env vp_defaults ?fs vp_init)
          = replicate 480480 (1 / 2)"
    by (simp add: frames_at_samples vp_init_def)
  from th [THEN conjunct2, THEN conjunct1] d1 d2
  have 3: "started (stable_run stable_settings ?ds stable_loop_init) = []
      \<and> audio_buffer_l (stable_run stable_settings ?ds stable_loop_init)
          = replicate 320000 (1 / 2)"
    unfolding d3 by (simp add: stable_loop_init_def)
  from th [THEN conjunct2, THEN conjunct2] a1
  have 4: "truncate_audio stable_settings (replicate 320000 (1 / 2)) = replicate 240000 (1 / 2)"
    unfolding a2 by simp
  from 1 3 4 show ?thesis by blast
qed

section \<open>The silence timer\<close>

text \<open>
  The capture pipeline measures silence from the last voiced frame: a voiced frame sets
  \<open>last_voice_time\<close> to the clock reading of its pass, and a silent frame ends the
  recording exactly when the time since then has reached the timeout.
\<close>

lemma vp_silence_rule:
  "(detect_voice_activity env cfg f \<longrightarrow>
      last_voice_time (log_error (segment_frame env cfg t f st)) = t)
   \<and> (\<not> detect_voice_activity env cfg f \<and> is_recording st \<longrightarrow>
      is_recording (log_error (segment_frame env cfg t f st))
        = (t - last_voice_time st < silence_duration cfg))"
  by (auto simp: segment_frame_def log_error_def start_recording_def stop_recording_def
      create_task_def Let_def)

text \<open>
  Claim C1, at the input where the two tray loops depart from it. The loops keep the
  time of the first silent chunk of an utterance in \<open>silence_start\<close> and a voiced chunk
  does not reset it. In the stream below, chunk 1 (at 0.1 s) is a pause of one chunk and
  speech goes on until chunk 15 (at 1.5 s): \<open>silence_start\<close> is still 0.1 s then, and
  the silent chunk at 1.6 s finalizes the utterance, 0.1 s after the last voiced chunk
  and not 1.5 s. The stable loop, with its timeout of 2.0 s, does the same at 2.1 s.
\<close>

theorem silence_timer_not_restarted_by_voice:
  "silence_start (gtk_run gtk_settings (interrupted_speech_before 16) gtk_loop_init)
     = Some (1 / 10)
   \<and> is_speaking (gtk_run gtk_settings (interrupted_speech_before 16) gtk_loop_init)
   \<and> chunk_time (last (interrupted_speech_before 16)) = 15 / 10
   \<and> chunk_time (last (interrupted_speech 16)) = 16 / 10
   \<and> gtk_run gtk_settings (interrupted_speech 16) gtk_loop_init
       = gtk_loop_init\<lparr>started := [replicate 1600 (1 / 2) @ replicate 1600 0
            @ replicate 22400 (1 / 2) @ replicate 1600 0]\<rparr>
   \<and> silence_start (stable_run stable_settings (map (Pair 0) (interrupted_speech_before 21))
         stable_loop_init) = Some (1 / 10)
   \<and> chunk_time (last (interrupted_speech_before 21)) = 20 / 10
   \<and> chunk_time (last (interrupted_speech 21)) = 21 / 10
   \<and> stable_run stable_settings (map (Pair 0) (interrupted_speech 21)) stable_loop_init
       = stable_loop_init\<lparr>started := [replicate 1600 (1 / 2) @ replicate 1600 0
            @ replicate 30400 (1 / 2) @ replicate 1600 0]\<rparr>"
proof -
  have a: "gtk_run gtk_settings (interrupted_speech_before 16) gtk_loop_init
     = gtk_loop_init\<lparr>is_speaking := True, silence_start := Some (1 / 10),
         audio_buffer_l := replicate 1600 (1 / 2) @ replicate 1600 0
            @ replicate 22400 (1 / 2),
         speech_frames := 15, silence_frames := 0\<rparr>"
    using gtk_interrupted_before [of 16] by simp
  have b: "gtk_run gtk_settings (interrupted_speech 16) gtk_loop_init
       = gtk_loop_init\<lparr>started := [replicate 1600 (1 / 2) @ replicate 1600 0
            @ replicate 22400 (1 / 2) @ replicate 1600 0]\<rparr>"
    using gtk_interrupted [of 16] by simp
  have c: "stable_run stable_settings (map (Pair 0) (interrupted_speech_before 21))
      stable_loop_init
     = stable_loop_init\<lparr>is_speaking := True, silence_start := Some (1 / 10),
         audio_buffer_l := replicate 1600 (1 / 2) @ replicate 1600 0
            @ replicate 30400 (1 / 2)\<rparr>"
    using stable_interrupted_before [of 21 0] by simp
  have d: "stable_run stable_settings (map (Pair 0) (interrupted_speech 21)) stable_loop_init
       = stable_loop_init\<lparr>started := [replicate 1600 (1 / 2) @ replicate 1600 0
            @ replicate 30400 (1 / 2) @ replicate 1600 0]\<rparr>"
    using stable_interrupted [of 21 0] by simp
  show ?thesis
    unfolding a b c d using interrupted_speech_times(1) [of 16]
      interrupted_speech_times(1) [of 21] interrupted_speech_times(2) [of 16]
      interrupted_speech_times(2) [of 21]
    by simp
qed

end
